theory Spec2Isabelle
  imports Main "HOL-Library.Sublist" "HOL-Library.Word"
begin

section \<open>Strings\<close>

text \<open>
  A JavaScript string is modelled as a \<^typ>\<open>string\<close>: a list of 8-bit code units.
  The model covers text whose UTF-16 code units are below 256 (ASCII and Latin-1);
  on these, \<open>toLowerCase\<close>, \<open>trim\<close> and the regular-expression class \<open>\s\<close> are
  as ECMAScript defines them.
\<close>

definition isSpace :: "char \<Rightarrow> bool" where
  \<comment> \<open>\<open>\s\<close> and the characters \<open>trim\<close> removes: space, TAB, LF, VT, FF, CR, NBSP.\<close>
  "isSpace c \<longleftrightarrow>
     c = CHR '' '' \<or> c = CHR 0x09 \<or> c = CHR 0x0A \<or> c = CHR 0x0B \<or>
     c = CHR 0x0C \<or> c = CHR 0x0D \<or> c = CHR 0xA0"

definition isDigit :: "char \<Rightarrow> bool" where
  \<comment> \<open>\<open>\d\<close>\<close>
  "isDigit c \<longleftrightarrow> (48::nat) \<le> of_char c \<and> of_char c \<le> (57::nat)"

definition lowerChar :: "char \<Rightarrow> char" where
  "lowerChar c =
     (let n = (of_char c :: nat)
      in if (65 \<le> n \<and> n \<le> 90) \<or> (192 \<le> n \<and> n \<le> 222 \<and> n \<noteq> 215)
         then char_of (n + 32) else c)"

definition toLowerCase :: "string \<Rightarrow> string" where
  "toLowerCase s = map lowerChar s"

definition trimStart :: "string \<Rightarrow> string" where
  "trimStart s = dropWhile isSpace s"

definition trimEnd :: "string \<Rightarrow> string" where
  "trimEnd s = rev (dropWhile isSpace (rev s))"

definition trim :: "string \<Rightarrow> string" where
  "trim s = trimEnd (trimStart s)"

fun includesStr :: "string \<Rightarrow> string \<Rightarrow> bool" where
  \<comment> \<open>\<open>s.includes(k)\<close>: \<open>k\<close> occurs in \<open>s\<close> as a substring.\<close>
  "includesStr [] k = (k = [])"
| "includesStr (c # cs) k = (prefix k (c # cs) \<or> includesStr cs k)"

definition digitVal :: "char \<Rightarrow> nat" where
  "digitVal c = of_char c - 48"

definition digitsVal :: "string \<Rightarrow> nat" where
  \<comment> \<open>The number a string of decimal digits denotes.\<close>
  "digitsVal ds = foldl (\<lambda>acc c. 10 * acc + digitVal c) 0 ds"

section \<open>Classifier\<close>

subsection \<open>Event types\<close>

datatype EventType = Music | Comedy | Theatre | Screening | Other

definition KEYWORDS :: "(EventType \<times> string list) list" where
  "KEYWORDS =
    [(Music,
       [''concert'', ''live music'', ''band'', ''dj'', ''album'', ''tour'', ''singer'',
        ''jazz'', ''rock'', ''punk'', ''metal'', ''hip hop'', ''rap'', ''electronic'',
        ''folk'', ''country'', ''indie'', ''funk'', ''soul'', ''r&b'', ''reggae'',
        ''orchestra'', ''symphony'', ''acoustic'', ''vinyl'', ''record'']),
     (Comedy,
       [''comedy'', ''stand-up'', ''standup'', ''comedian'', ''improv'', ''sketch'',
        ''laugh'', ''funny'', ''comic'', ''open mic comedy'', ''roast'']),
     (Theatre,
       [''theatre'', ''theater'', ''play'', ''musical'', ''drama'', ''stage'',
        ''performance'', ''act'', ''production'', ''playwright'', ''ballet'',
        ''dance'', ''opera'', ''burlesque'', ''cabaret'', ''drag'']),
     (Screening,
       [''film'', ''movie'', ''screening'', ''cinema'', ''documentary'', ''short'',
        ''premiere'', ''watch party'', ''matinee'']),
     (Other, [])]"

type_synonym Scores = "EventType \<Rightarrow> nat"

definition zeroScores :: Scores where
  "zeroScores = (\<lambda>_. 0)"

definition countKeywords :: "string \<Rightarrow> EventType \<Rightarrow> string list \<Rightarrow> Scores \<Rightarrow> Scores" where
  \<comment> \<open>The inner loop: \<open>scores[type]++\<close> for every keyword the title includes.\<close>
  "countKeywords normalized ty keywords scores =
     foldl (\<lambda>sc keyword. if includesStr normalized keyword then sc(ty := sc ty + 1) else sc)
       scores keywords"

definition countAll :: "string \<Rightarrow> Scores" where
  \<comment> \<open>The outer loop over \<open>Object.entries(KEYWORDS)\<close>.\<close>
  "countAll normalized =
     foldl (\<lambda>sc (ty, keywords). countKeywords normalized ty keywords sc) zeroScores KEYWORDS"

definition scoreEntries :: "Scores \<Rightarrow> (EventType \<times> nat) list" where
  \<comment> \<open>\<open>Object.entries(scores)\<close>, in the order the object literal declares its keys.\<close>
  "scoreEntries sc = map (\<lambda>ty. (ty, sc ty)) [Music, Comedy, Theatre, Screening, Other]"

definition pickBest :: "(EventType \<times> nat) list \<Rightarrow> EventType" where
  \<comment> \<open>The second loop: a strictly higher score replaces the best one so far.\<close>
  "pickBest entries =
     fst (foldl (\<lambda>(bestType, bestScore) (ty, score).
                   if score > bestScore then (ty, score) else (bestType, bestScore))
            (Other, 0) entries)"

definition classifyEventType :: "string \<Rightarrow> EventType" where
  "classifyEventType title = pickBest (scoreEntries (countAll (toLowerCase title)))"



subsection \<open>Prices\<close>

record PriceResult =
  price :: "int option"
  isFree :: bool

fun findPrice :: "string \<Rightarrow> (string \<times> string option) option" where
  \<comment> \<open>The first match of \<open>/\$?(\d+(?:\.\d{2})?)/\<close>: the match starts at the first digit
      of the string (or at a dollar sign right before it); group 1 is the longest run of
      digits there, with a dot and exactly two digits after it when they follow.
      The result is the run of digits and the two decimals when present.\<close>
  "findPrice [] = None"
| "findPrice (c # cs) =
     (if isDigit c then
        (let ds = takeWhile isDigit (c # cs); rest = dropWhile isDigit (c # cs)
         in case rest of
              d # a # b # _ \<Rightarrow>
                if d = CHR ''.'' \<and> isDigit a \<and> isDigit b then Some (ds, Some [a, b])
                else Some (ds, None)
            | _ \<Rightarrow> Some (ds, None))
      else findPrice cs)"

definition toCents :: "string \<times> string option \<Rightarrow> int" where
  \<comment> \<open>\<open>Math.round(parseFloat(m) * 100)\<close> in exact arithmetic. The double-precision
      computation of the source gives the same integer for amounts below \<open>2^51\<close> cents.\<close>
  "toCents m =
     (case m of
        (ds, None) \<Rightarrow> int (digitsVal ds) * 100
      | (ds, Some cs) \<Rightarrow> int (digitsVal ds) * 100 + int (digitsVal cs))"


definition parsePrice :: "string option \<Rightarrow> PriceResult" where
  "parsePrice raw =
     (case raw of
        None \<Rightarrow> \<lparr>price = None, isFree = False\<rparr>
      | Some r \<Rightarrow>
          if r = [] then \<lparr>price = None, isFree = False\<rparr>
          else
            (let normalized = trim (toLowerCase r)
             in if includesStr normalized ''free'' \<or> normalized = ''pwyc'' \<or>
                   normalized = ''pay what you can'' \<or> normalized = ''$0'' \<or>
                   normalized = ''0''
                then \<lparr>price = Some 0, isFree = True\<rparr>
                else (case findPrice normalized of
                        Some m \<Rightarrow> \<lparr>price = Some (toCents m), isFree = False\<rparr>
                      | None \<Rightarrow> \<lparr>price = None, isFree = False\<rparr>)))"


section \<open>Scraper core\<close>

subsection \<open>Data\<close>

record ScraperConfig =
  userAgent :: string
  delayMs :: nat
  maxRetries :: nat
  timeout :: nat

record RawEvent =
  title :: string
  dateRaw :: string
  url :: "string option"
  priceRaw :: "string option"
  doorsRaw :: "string option"

record VenueScraper =
  venue_id :: string
  venue_name :: string
  venue_url :: string
  enabled :: bool

datatype Status = Success | Error | Skipped

text \<open>
  \<open>ScrapeResult\<close> without \<open>durationMs\<close>: the wall-clock duration of a run is not part of
  the model.
\<close>

record ScrapeResult =
  venueId :: string
  status :: Status
  events :: "RawEvent list"
  errorMessage :: "string option"

definition DEFAULT_CONFIG :: ScraperConfig where
  \<comment> \<open>The defaults when the environment sets neither the user agent nor the delay.\<close>
  "DEFAULT_CONFIG =
     \<lparr>userAgent = ''PaperBear/1.0 (Vancouver Community Events Bot; contact@paperbear.dev)'',
      delayMs = 1500, maxRetries = 3, timeout = 30000\<rparr>"

subsection \<open>The scraper and its environment\<close>

text \<open>
  The state of an \<open>EthicalScraper\<close>: its configuration and whether the browser context
  exists (\<open>this.context\<close> is not null). The rate limiter's watermark is real time and is
  not modelled.
\<close>

record EthicalScraper =
  config :: ScraperConfig
  contextOpen :: bool

definition newScraper :: "ScraperConfig \<Rightarrow> EthicalScraper" where
  \<comment> \<open>The constructor: no browser, no context.\<close>
  "newScraper cfg = \<lparr>config = cfg, contextOpen = False\<rparr>"

definition init :: "EthicalScraper \<Rightarrow> EthicalScraper" where
  "init s = s\<lparr>contextOpen := True\<rparr>"

definition close :: "EthicalScraper \<Rightarrow> EthicalScraper" where
  "close s = s\<lparr>contextOpen := False\<rparr>"

text \<open>
  What an awaited call of the outside world does: it returns a value or throws. A thrown
  value is represented by the message the \<open>catch\<close> block reads from it
  (\<open>error.message\<close>, or \<open>String(error)\<close> for a value that is not an \<open>Error\<close>).
\<close>

datatype 'a Outcome = Returns 'a | Throws string

text \<open>
  The environment of a run says, for a venue and the number of the attempt, what the
  navigation of the browser, the venue's \<open>scrape\<close> and \<open>page.close()\<close> do.
\<close>

record World =
  navigate :: "string \<Rightarrow> nat \<Rightarrow> unit Outcome"
  scrape :: "string \<Rightarrow> nat \<Rightarrow> RawEvent list Outcome"
  closePage :: "string \<Rightarrow> nat \<Rightarrow> unit Outcome"

text \<open>The effects of a run that the properties below speak about, in order.\<close>

datatype Effect =
    AttemptStarted nat
  | PageClosed
  | AttemptFailed nat string
  | Backoff nat

definition NOT_INITIALIZED :: string where
  "NOT_INITIALIZED = ''EthicalScraper not initialized. Call init() first.''"

definition fetchDynamic :: "EthicalScraper \<Rightarrow> World \<Rightarrow> string \<Rightarrow> nat \<Rightarrow> unit Outcome" where
  \<comment> \<open>The page handle carries no information of its own, so a fetched page is \<open>()\<close>.\<close>
  "fetchDynamic s w u attempt =
     (if \<not> contextOpen s then Throws NOT_INITIALIZED else navigate w u attempt)"

definition tryAttempt ::
  "EthicalScraper \<Rightarrow> World \<Rightarrow> VenueScraper \<Rightarrow> nat \<Rightarrow> RawEvent list Outcome \<times> Effect list" where
  \<comment> \<open>The body of the outer \<open>try\<close>. The inner \<open>finally\<close> closes the page after \<open>scrape\<close>
      returned or threw; when \<open>page.close()\<close> throws, its exception replaces either.\<close>
  "tryAttempt s w v attempt =
     (case fetchDynamic s w (venue_url v) attempt of
        Throws m \<Rightarrow> (Throws m, [AttemptStarted attempt])
      | Returns page \<Rightarrow>
          (let r = scrape w (venue_id v) attempt
           in case closePage w (venue_url v) attempt of
                Throws m \<Rightarrow> (Throws m, [AttemptStarted attempt, PageClosed])
              | Returns _ \<Rightarrow> (r, [AttemptStarted attempt, PageClosed])))"

definition errorResult :: "VenueScraper \<Rightarrow> string option \<Rightarrow> ScrapeResult" where
  \<comment> \<open>\<open>lastError?.message || 'Unknown error'\<close>: an empty message is falsy.\<close>
  "errorResult v lastError =
     \<lparr>venueId = venue_id v, status = Error, events = [],
      errorMessage = Some (case lastError of
                             None \<Rightarrow> ''Unknown error''
                           | Some m \<Rightarrow> if m = [] then ''Unknown error'' else m)\<rparr>"

function attemptLoop ::
  "EthicalScraper \<Rightarrow> World \<Rightarrow> VenueScraper \<Rightarrow> nat \<Rightarrow> string option \<Rightarrow> Effect list \<Rightarrow>
     ScrapeResult \<times> Effect list" where
  "attemptLoop s w v attempt lastError log =
     (if attempt \<le> maxRetries (config s) then
        (case tryAttempt s w v attempt of
           (Returns evs, effs) \<Rightarrow>
             (\<lparr>venueId = venue_id v, status = Success, events = evs, errorMessage = None\<rparr>,
              log @ effs)
         | (Throws m, effs) \<Rightarrow>
             attemptLoop s w v (attempt + 1) (Some m)
               (log @ effs @ [AttemptFailed attempt m] @
                (if attempt < maxRetries (config s)
                 then [Backoff (delayMs (config s) * 2 ^ (attempt - 1))] else [])))
      else (errorResult v lastError, log))"
  by pat_completeness auto
termination
  by (relation "measure (\<lambda>(s, w, v, attempt, lastError, log). maxRetries (config s) + 1 - attempt)")
    auto

declare attemptLoop.simps [simp del]

definition runScraper :: "EthicalScraper \<Rightarrow> World \<Rightarrow> VenueScraper \<Rightarrow> ScrapeResult \<times> Effect list" where
  "runScraper s w v =
     (if \<not> enabled v
      then (\<lparr>venueId = venue_id v, status = Skipped, events = [], errorMessage = None\<rparr>, [])
      else attemptLoop s w v 1 None [])"

definition getEnabledVenues :: "VenueScraper list \<Rightarrow> VenueScraper list" where
  "getEnabledVenues venues = filter enabled venues"

definition runAll :: "EthicalScraper \<Rightarrow> World \<Rightarrow> VenueScraper list \<Rightarrow> (ScrapeResult \<times> Effect list) list" where
  \<comment> \<open>The loop of the orchestrator over the venues: one result per venue, in order.\<close>
  "runAll s w venues = map (runScraper s w) venues"

definition attemptsOf :: "Effect list \<Rightarrow> nat" where
  \<comment> \<open>How many attempts a run made.\<close>
  "attemptsOf log = length (filter (\<lambda>e. case e of AttemptStarted _ \<Rightarrow> True | _ \<Rightarrow> False) log)"

definition backoffsOf :: "Effect list \<Rightarrow> nat list" where
  \<comment> \<open>The backoff sleeps of a run, in order.\<close>
  "backoffsOf log = concat (map (\<lambda>e. case e of Backoff ms \<Rightarrow> [ms] | _ \<Rightarrow> []) log)"

subsection \<open>An example run\<close>

definition rioTheatre :: VenueScraper where
  "rioTheatre =
     \<lparr>venue_id = ''rio-theatre'', venue_name = ''Rio Theatre'',
      venue_url = ''https://riotheatre.ca/calendar/'', enabled = True\<rparr>"

definition rickshawTheatre :: VenueScraper where
  "rickshawTheatre =
     \<lparr>venue_id = ''rickshaw-theatre'', venue_name = ''Rickshaw Theatre'',
      venue_url = ''https://rickshawtheatre.com/events/'', enabled = True\<rparr>"

definition rickshawEvents :: "RawEvent list" where
  "rickshawEvents =
     [\<lparr>title = ''Punk Night'', dateRaw = ''January 12, 2024 7:30 PM'', url = None,
       priceRaw = Some ''$15'', doorsRaw = Some ''Doors 7pm''\<rparr>]"

definition rioDown :: World where
  \<comment> \<open>A world where the Rio's site refuses every connection and all else works.\<close>
  "rioDown =
     \<lparr>navigate = (\<lambda>u attempt. if u = venue_url rioTheatre
                                then Throws ''net::ERR_CONNECTION_REFUSED'' else Returns ()),
      scrape = (\<lambda>i attempt. if i = venue_id rickshawTheatre
                              then Returns rickshawEvents else Returns []),
      closePage = (\<lambda>u attempt. Returns ())\<rparr>"

section \<open>Dates\<close>

subsection \<open>JavaScript dates\<close>

text \<open>
  A valid JavaScript \<open>Date\<close> is modelled by its calendar fields in the local time zone of
  the process, named after the methods that read them. The model takes the time zone of
  the process to be UTC, so the local fields are the UTC fields and \<open>toISOString\<close> prints
  them. Months count from 0. An invalid date is \<open>None\<close> wherever one can arise.
\<close>

record JSDate =
  getFullYear :: int
  getMonth :: nat
  getDate :: nat
  getHours :: nat
  getMinutes :: nat
  getSeconds :: nat
  getMilliseconds :: nat

definition isLeapYear :: "int \<Rightarrow> bool" where
  "isLeapYear y \<longleftrightarrow> y mod 400 = 0 \<or> (y mod 4 = 0 \<and> y mod 100 \<noteq> 0)"

definition daysInMonth :: "int \<Rightarrow> nat \<Rightarrow> nat" where
  "daysInMonth y m =
     (if m = 1 then (if isLeapYear y then 29 else 28)
      else if m = 3 \<or> m = 5 \<or> m = 8 \<or> m = 10 then 30 else 31)"


text \<open>The time value of a date, as ECMAScript computes it from the fields.\<close>

definition DayFromYear :: "int \<Rightarrow> int" where
  "DayFromYear y =
     365 * (y - 1970) + (y - 1969) div 4 - (y - 1901) div 100 + (y - 1601) div 400"

definition monthStart :: "int \<Rightarrow> nat \<Rightarrow> int" where
  \<comment> \<open>The number of days of the year before the first of a month.\<close>
  "monthStart y m =
     int ([0, 31, 59, 90, 120, 151, 181, 212, 243, 273, 304, 334] ! (m mod 12)) +
       (if isLeapYear y \<and> 2 \<le> m mod 12 then 1 else 0)"

definition MakeDay :: "int \<Rightarrow> nat \<Rightarrow> int \<Rightarrow> int" where
  "MakeDay y m dt = DayFromYear (y + int (m div 12)) + monthStart (y + int (m div 12)) m + dt - 1"

definition MakeTime :: "nat \<Rightarrow> nat \<Rightarrow> nat \<Rightarrow> nat \<Rightarrow> int" where
  "MakeTime h mi s ms = int h * 3600000 + int mi * 60000 + int s * 1000 + int ms"

definition msPerDay :: int where
  "msPerDay = 86400000"

definition timeInDay :: "JSDate \<Rightarrow> int" where
  "timeInDay d = MakeTime (getHours d) (getMinutes d) (getSeconds d) (getMilliseconds d)"

definition getTime :: "JSDate \<Rightarrow> int" where
  \<comment> \<open>Milliseconds since 1970-01-01T00:00:00Z.\<close>
  "getTime d = MakeDay (getFullYear d) (getMonth d) (int (getDate d)) * msPerDay + timeInDay d"

definition prevMonth :: "int \<times> nat \<Rightarrow> int \<times> nat" where
  "prevMonth ym = (case ym of (y, m) \<Rightarrow> if m = 0 then (y - 1, 11) else (y, m - 1))"

definition nextMonth :: "int \<times> nat \<Rightarrow> int \<times> nat" where
  "nextMonth ym = (case ym of (y, m) \<Rightarrow> if 11 \<le> m then (y + 1, 0) else (y, m + 1))"

function dayBefore :: "int \<times> nat \<Rightarrow> int \<Rightarrow> (int \<times> nat) \<times> nat" where
  \<comment> \<open>The month and day that day number \<open>n \<le> 0\<close> of a month falls on.\<close>
  "dayBefore ym n =
     (if n < 1
      then (case prevMonth ym of (y, m) \<Rightarrow> dayBefore (y, m) (n + int (daysInMonth y m)))
      else (ym, nat n))"
  by pat_completeness auto
termination
  by (relation "measure (\<lambda>(ym, n). nat (1 - n))") (auto simp: daysInMonth_def)

function dayAfter :: "int \<times> nat \<Rightarrow> int \<Rightarrow> (int \<times> nat) \<times> nat" where
  \<comment> \<open>The month and day that day number \<open>n \<ge> 1\<close> of a month falls on.\<close>
  "dayAfter ym n =
     (case ym of (y, m) \<Rightarrow>
        if int (daysInMonth y m) < n
        then dayAfter (nextMonth (y, m)) (n - int (daysInMonth y m))
        else (ym, nat n))"
  by pat_completeness auto
termination
  by (relation "measure (\<lambda>(ym, n). nat n)") (auto simp: daysInMonth_def)

declare dayBefore.simps [simp del] dayAfter.simps [simp del]

definition setDate :: "JSDate \<Rightarrow> int \<Rightarrow> JSDate" where
  \<comment> \<open>\<open>date.setDate(n)\<close>: a day number outside the month runs into the months before
      or after it.\<close>
  "setDate d n =
     (case (if n < 1 then dayBefore (getFullYear d, getMonth d) n
            else dayAfter (getFullYear d, getMonth d) n) of
        ((y, m), dt) \<Rightarrow> d\<lparr>getFullYear := y, getMonth := m, getDate := dt\<rparr>)"

definition setFullYear :: "JSDate \<Rightarrow> int \<Rightarrow> JSDate" where
  \<comment> \<open>\<open>date.setFullYear(y)\<close> keeps month and day; the 29th of February of a year that
      has none is the 1st of March.\<close>
  "setFullYear d y = setDate (d\<lparr>getFullYear := y\<rparr>) (int (getDate d))"

definition addMilliseconds :: "JSDate \<Rightarrow> int \<Rightarrow> JSDate" where
  \<comment> \<open>\<open>new Date(date.getTime() + k)\<close>\<close>
  "addMilliseconds d k =
     (let t = timeInDay d + k;
          r = nat (t mod msPerDay);
          d' = setDate d (int (getDate d) + t div msPerDay)
      in d'\<lparr>getHours := r div 3600000, getMinutes := r div 60000 mod 60,
             getSeconds := r div 1000 mod 60, getMilliseconds := r mod 1000\<rparr>)"

subsection \<open>The functions of date-fns on valid dates\<close>

definition setYear :: "JSDate \<Rightarrow> int \<Rightarrow> JSDate" where
  "setYear d y = setFullYear d y"

definition addMonths :: "JSDate \<Rightarrow> nat \<Rightarrow> JSDate" where
  \<comment> \<open>The same day of the month \<open>amount\<close> months later, or the last day of that month
      when it is shorter.\<close>
  "addMonths d amount =
     (let m = getMonth d + amount;
          y = getFullYear d + int (m div 12);
          daysInTarget = daysInMonth y (m mod 12)
      in d\<lparr>getFullYear := y, getMonth := m mod 12,
            getDate := (if getDate d \<ge> daysInTarget then daysInTarget else getDate d)\<rparr>)"

definition addYears :: "JSDate \<Rightarrow> nat \<Rightarrow> JSDate" where
  "addYears d amount = addMonths d (amount * 12)"

definition isBefore :: "JSDate \<Rightarrow> JSDate \<Rightarrow> bool" where
  "isBefore d dateToCompare \<longleftrightarrow> getTime d < getTime dateToCompare"

subsection \<open>ISO strings\<close>

definition digitChar :: "nat \<Rightarrow> char" where
  "digitChar n = char_of (48 + n mod 10)"

fun padDigits :: "nat \<Rightarrow> nat \<Rightarrow> string" where
  \<comment> \<open>The last \<open>w\<close> decimal digits of a number, with leading zeros.\<close>
  "padDigits 0 n = []"
| "padDigits (Suc w) n = padDigits w (n div 10) @ [digitChar n]"

definition isoYear :: "int \<Rightarrow> string" where
  \<comment> \<open>Four digits for the years 0 to 9999, a sign and six digits outside.\<close>
  "isoYear y =
     (if 0 \<le> y \<and> y \<le> 9999 then padDigits 4 (nat y)
      else (if y < 0 then ''-'' else ''+'') @ padDigits 6 (nat \<bar>y\<bar>))"

definition isoDate :: "JSDate \<Rightarrow> string" where
  \<comment> \<open>\<open>date.toISOString().split('T')[0]\<close>\<close>
  "isoDate d =
     isoYear (getFullYear d) @ ''-'' @ padDigits 2 (getMonth d + 1) @ ''-'' @
       padDigits 2 (getDate d)"


section \<open>Date parser\<close>

subsection \<open>Normalising the input\<close>

text \<open>
  Each \<open>replace\<close> of \<open>parseVancouverDate\<close> is a function that scans the string from left
  to right as the regular expression does: at a position where the expression matches,
  the replacement is emitted and the scan goes on behind the match; elsewhere the
  character is copied. All the expressions are global (flag \<open>g\<close>).
\<close>

function collapseWhitespace :: "string \<Rightarrow> string" where
  \<comment> \<open>\<open>.replace(/\s+/g, ' ')\<close>\<close>
  "collapseWhitespace [] = []"
| "collapseWhitespace (c # cs) =
     (if isSpace c then CHR '' '' # collapseWhitespace (dropWhile isSpace cs)
      else c # collapseWhitespace cs)"
  by pat_completeness auto
termination
  by (relation "measure length") (auto simp: length_dropWhile_le less_Suc_eq_le)

function normalizeCommas :: "string \<Rightarrow> string" where
  \<comment> \<open>\<open>.replace(/,\s*/g, ', ')\<close>\<close>
  "normalizeCommas [] = []"
| "normalizeCommas (c # cs) =
     (if c = CHR '','' then CHR '','' # CHR '' '' # normalizeCommas (dropWhile isSpace cs)
      else c # normalizeCommas cs)"
  by pat_completeness auto
termination
  by (relation "measure length") (auto simp: length_dropWhile_le less_Suc_eq_le)

definition startsWithCI :: "string \<Rightarrow> string \<Rightarrow> bool" where
  \<comment> \<open>The string starts with the (lower-case) keyword, in any mix of cases.\<close>
  "startsWithCI keyword s \<longleftrightarrow> toLowerCase (take (length keyword) s) = keyword"

definition hasOrdinalSuffix :: "string \<Rightarrow> bool" where
  \<comment> \<open>\<open>(st|nd|rd|th)\<close> with flag \<open>i\<close>\<close>
  "hasOrdinalSuffix s \<longleftrightarrow>
     startsWithCI ''st'' s \<or> startsWithCI ''nd'' s \<or> startsWithCI ''rd'' s \<or> startsWithCI ''th'' s"

function stripOrdinals :: "string \<Rightarrow> string" where
  \<comment> \<open>\<open>.replace(/(\d+)(st|nd|rd|th)/gi, '$1')\<close>: only the whole run of digits can be
      followed by a suffix, so a run that is not is copied as it is.\<close>
  "stripOrdinals [] = []"
| "stripOrdinals (c # cs) =
     (if isDigit c then
        (if hasOrdinalSuffix (dropWhile isDigit cs)
         then c # takeWhile isDigit cs @ stripOrdinals (drop 2 (dropWhile isDigit cs))
         else c # takeWhile isDigit cs @ stripOrdinals (dropWhile isDigit cs))
      else c # stripOrdinals cs)"
  by pat_completeness auto
termination
  by (relation "measure length")
    (auto simp: length_dropWhile_le less_Suc_eq_le intro: le_trans [OF diff_le_self])

definition removeDots :: "string \<Rightarrow> string" where
  \<comment> \<open>\<open>.replace(/\./g, '')\<close>\<close>
  "removeDots s = filter (\<lambda>c. c \<noteq> CHR ''.'') s"

definition isMeridiem :: "string \<Rightarrow> bool" where
  \<comment> \<open>\<open>(am|pm)\<close> with flag \<open>i\<close>\<close>
  "isMeridiem s \<longleftrightarrow> startsWithCI ''am'' s \<or> startsWithCI ''pm'' s"

fun spaceMeridiem :: "string \<Rightarrow> string" where
  \<comment> \<open>\<open>.replace(/(\d)(am|pm)/gi, '$1 $2')\<close>\<close>
  "spaceMeridiem [] = []"
| "spaceMeridiem (c # cs) =
     (if isDigit c \<and> isMeridiem cs
      then c # CHR '' '' # take 2 cs @ spaceMeridiem (drop 2 cs)
      else c # spaceMeridiem cs)"

definition dropSeparator :: "string \<Rightarrow> string" where
  \<comment> \<open>\<open>(?:@|at|:)?\<close> with flag \<open>i\<close>\<close>
  "dropSeparator s =
     (if take 1 s = ''@'' then drop 1 s
      else if startsWithCI ''at'' s then drop 2 s
      else if take 1 s = '':'' then drop 1 s
      else s)"

definition afterPhrase :: "string \<Rightarrow> string" where
  \<comment> \<open>\<open>\s*(?:@|at|:)?\s*\<close>\<close>
  "afterPhrase s = dropWhile isSpace (dropSeparator (dropWhile isSpace s))"

definition dropOptionalS :: "string \<Rightarrow> string" where
  \<comment> \<open>\<open>s?\<close> with flag \<open>i\<close>\<close>
  "dropOptionalS s = (if startsWithCI ''s'' s then drop 1 s else s)"

function stripDoors :: "string \<Rightarrow> string" where
  \<comment> \<open>\<open>.replace(/doors?\s*(?:@|at|:)?\s*/gi, '')\<close>\<close>
  "stripDoors [] = []"
| "stripDoors (c # cs) =
     (if startsWithCI ''door'' (c # cs)
      then stripDoors (afterPhrase (dropOptionalS (drop 4 (c # cs))))
      else c # stripDoors cs)"
  by pat_completeness auto
termination
proof (relation "measure length")
  fix c :: char and cs :: string
  have a: "length (afterPhrase s) \<le> length s" for s
    unfolding afterPhrase_def dropSeparator_def
    by (auto intro!: le_trans [OF length_dropWhile_le] simp: length_dropWhile_le
        intro: le_trans [OF diff_le_self])
  have b: "length (dropOptionalS s) \<le> length s" for s
    by (simp add: dropOptionalS_def)
  have "length (afterPhrase (dropOptionalS (drop 4 (c # cs)))) \<le> length (drop 4 (c # cs))"
    by (rule le_trans [OF a b])
  then show "(afterPhrase (dropOptionalS (drop 4 (c # cs))), c # cs) \<in> measure length"
    by simp
qed auto

function stripShow :: "string \<Rightarrow> string" where
  \<comment> \<open>\<open>.replace(/show\s*(?:@|at|:)?\s*/gi, '')\<close>\<close>
  "stripShow [] = []"
| "stripShow (c # cs) =
     (if startsWithCI ''show'' (c # cs)
      then stripShow (afterPhrase (drop 4 (c # cs)))
      else c # stripShow cs)"
  by pat_completeness auto
termination
proof (relation "measure length")
  fix c :: char and cs :: string
  have a: "length (afterPhrase s) \<le> length s" for s
    unfolding afterPhrase_def dropSeparator_def
    by (auto intro!: le_trans [OF length_dropWhile_le] simp: length_dropWhile_le
        intro: le_trans [OF diff_le_self])
  from a [of "drop 4 (c # cs)"]
  show "(afterPhrase (drop 4 (c # cs)), c # cs) \<in> measure length"
    by simp
qed auto

definition normalizeInput :: "string \<Rightarrow> string" where
  "normalizeInput raw =
     trim (stripShow (stripDoors (spaceMeridiem (removeDots (stripOrdinals
       (normalizeCommas (collapseWhitespace (trim raw))))))))"

subsection \<open>Formats, year inference and the time zone\<close>

definition DATE_FORMATS :: "string list" where
  "DATE_FORMATS =
    [''EEEE, MMMM d, yyyy h:mm a'',
     ''MMMM d, yyyy h:mm a'',
     ''MMM d, yyyy h:mm a'',
     ''MMMM d, yyyy'',
     ''MMM d, yyyy'',
     ''yyyy-MM-dd HH:mm'',
     ''yyyy-MM-dd'',
     ''EEEE, MMMM d h:mm a'',
     ''EEEE MMMM d h:mm a'',
     ''MMMM d h:mm a'',
     ''MMM d h:mm a'',
     ''EEEE, MMMM d'',
     ''MMMM d'',
     ''MMM d'',
     ''h:mm a'',
     ''h a'',
     ''ha'']"

text \<open>
  The parser of date-fns is a parameter of the model: \<open>parse normalized fmt referenceDate\<close>
  is the parsed date, or \<open>None\<close> when the library returns an invalid date or throws (the
  loop treats both alike). The time zone database is a parameter too: \<open>tz d\<close> is the
  number of milliseconds to add to the wall-clock time \<open>d\<close> of America/Vancouver to
  reach UTC.
\<close>

type_synonym Parser = "string \<Rightarrow> string \<Rightarrow> JSDate \<Rightarrow> JSDate option"

type_synonym Zone = "JSDate \<Rightarrow> int"

fun tryFormats :: "Parser \<Rightarrow> string \<Rightarrow> JSDate \<Rightarrow> string list \<Rightarrow> (JSDate \<times> bool) option" where
  \<comment> \<open>The loop over the formats: the first valid result, and whether its format has the
      year token.\<close>
  "tryFormats parse normalized referenceDate [] = None"
| "tryFormats parse normalized referenceDate (fmt # fmts) =
     (case parse normalized fmt referenceDate of
        Some result \<Rightarrow> Some (result, includesStr fmt ''yyyy'')
      | None \<Rightarrow> tryFormats parse normalized referenceDate fmts)"

definition inferYear :: "JSDate \<Rightarrow> JSDate \<Rightarrow> JSDate" where
  "inferYear d referenceDate =
     (let result = setYear d (getFullYear referenceDate);
          twoWeeksAgo = setDate referenceDate (int (getDate referenceDate) - 14)
      in if isBefore result twoWeeksAgo then addYears result 1 else result)"

definition fromZonedTime :: "Zone \<Rightarrow> JSDate \<Rightarrow> JSDate" where
  \<comment> \<open>The fields of the date, read as wall-clock time of the zone, as an instant.\<close>
  "fromZonedTime tz d = addMilliseconds d (tz d)"

definition parseVancouverDate :: "Parser \<Rightarrow> Zone \<Rightarrow> string \<Rightarrow> JSDate \<Rightarrow> JSDate option" where
  "parseVancouverDate parse tz raw referenceDate =
     (if raw = [] then None
      else (case tryFormats parse (normalizeInput raw) referenceDate DATE_FORMATS of
              None \<Rightarrow> None
            | Some (parsed, usedFormatWithYear) \<Rightarrow>
                Some (fromZonedTime tz
                        (if usedFormatWithYear then parsed else inferYear parsed referenceDate))))"

subsection \<open>The last two steps as the specification words them\<close>




subsection \<open>A model of the parser of date-fns\<close>

text \<open>
  The library is not part of the repository. This is a model of its \<open>parse\<close> with the
  \<open>en-US\<close> locale for format strings made, like those of \<open>DATE_FORMATS\<close>, of the tokens
  \<open>EEEE\<close>, \<open>MMMM\<close>, \<open>MMM\<close>, \<open>MM\<close>, \<open>d\<close>, \<open>dd\<close>, \<open>yyyy\<close>, \<open>h\<close>, \<open>HH\<close>, \<open>mm\<close>, \<open>a\<close> and of
  punctuation: every token reads a prefix of the input and yields a setter; the input
  must be used up but for white space; of the setters with the same priority one is
  kept; the setters are validated and applied to the reference date from the highest
  priority down. A format with any other token is answered \<open>None\<close>. The properties of
  \<open>parseVancouverDate\<close> are proved for every parser; this one serves the examples.
\<close>

definition isWordChar :: "char \<Rightarrow> bool" where
  \<comment> \<open>\<open>\w\<close>\<close>
  "isWordChar c \<longleftrightarrow>
     isDigit c \<or> c = CHR ''_'' \<or>
     ((97::nat) \<le> of_char (lowerChar c) \<and> of_char (lowerChar c) \<le> (122::nat) \<and>
      of_char c < (128::nat))"

function formatTokens :: "string \<Rightarrow> string list" where
  \<comment> \<open>A run of one word character is a token; any other character is a token.\<close>
  "formatTokens [] = []"
| "formatTokens (c # cs) =
     (if isWordChar c
      then (c # takeWhile (\<lambda>x. x = c) cs) # formatTokens (dropWhile (\<lambda>x. x = c) cs)
      else [c] # formatTokens cs)"
  by pat_completeness auto
termination
  by (relation "measure length") (auto simp: length_dropWhile_le less_Suc_eq_le)

datatype DayPeriod = AM | PM | Midnight | Noon | Morning | Afternoon | Evening | Night | NoPeriod

datatype Setter =
    YearSetter int
  | MonthSetter int
  | DateSetter int
  | DaySetter int
  | AMPMSetter DayPeriod
  | Hour1to12Setter int
  | Hour0to23Setter int
  | MinuteSetter int

fun priority :: "Setter \<Rightarrow> nat" where
  "priority (YearSetter _) = 130"
| "priority (MonthSetter _) = 110"
| "priority (DateSetter _) = 90"
| "priority (DaySetter _) = 90"
| "priority (AMPMSetter _) = 80"
| "priority (Hour1to12Setter _) = 70"
| "priority (Hour0to23Setter _) = 70"
| "priority (MinuteSetter _) = 60"

fun subPriority :: "Setter \<Rightarrow> nat" where
  "subPriority (DateSetter _) = 1"
| "subPriority _ = 0"

paragraph \<open>Reading numbers\<close>

definition parseDigits :: "nat \<Rightarrow> string \<Rightarrow> (int \<times> string) option" where
  \<comment> \<open>\<open>/^\d{1,n}/\<close>\<close>
  "parseDigits n s =
     (let ds = takeWhile isDigit (take n s)
      in if ds = [] then None else Some (int (digitsVal ds), drop (length ds) s))"

definition parseDateNumber :: "string \<Rightarrow> (int \<times> string) option" where
  \<comment> \<open>\<open>/^(3[0-1]|[0-2]?\d)/\<close>\<close>
  "parseDateNumber s =
     (case s of
        a # b # _ \<Rightarrow>
          if (a = CHR ''3'' \<and> (b = CHR ''0'' \<or> b = CHR ''1'')) \<or>
             ((a = CHR ''0'' \<or> a = CHR ''1'' \<or> a = CHR ''2'') \<and> isDigit b)
          then Some (int (digitsVal [a, b]), drop 2 s)
          else if isDigit a then Some (int (digitsVal [a]), drop 1 s) else None
      | [a] \<Rightarrow> if isDigit a then Some (int (digitsVal [a]), []) else None
      | [] \<Rightarrow> None)"

definition parseHour12 :: "string \<Rightarrow> (int \<times> string) option" where
  \<comment> \<open>\<open>/^(1[0-2]|0?\d)/\<close>\<close>
  "parseHour12 s =
     (case s of
        a # b # _ \<Rightarrow>
          if (a = CHR ''1'' \<and> (b = CHR ''0'' \<or> b = CHR ''1'' \<or> b = CHR ''2'')) \<or>
             (a = CHR ''0'' \<and> isDigit b)
          then Some (int (digitsVal [a, b]), drop 2 s)
          else if isDigit a then Some (int (digitsVal [a]), drop 1 s) else None
      | [a] \<Rightarrow> if isDigit a then Some (int (digitsVal [a]), []) else None
      | [] \<Rightarrow> None)"

paragraph \<open>Reading names\<close>

fun matchAlternatives :: "string list \<Rightarrow> string \<Rightarrow> string option" where
  \<comment> \<open>\<open>/^(a|b|...)/i\<close>: the text the first alternative that matches reads.\<close>
  "matchAlternatives [] s = None"
| "matchAlternatives (a # as) s =
     (if length a \<le> length s \<and> startsWithCI a s then Some (take (length a) s)
      else matchAlternatives as s)"

fun findIndexCI :: "string list \<Rightarrow> string \<Rightarrow> nat \<Rightarrow> nat option" where
  \<comment> \<open>The index of the first of the patterns \<open>/^p/i\<close> that matches.\<close>
  "findIndexCI [] s i = None"
| "findIndexCI (p # ps) s i =
     (if length p \<le> length s \<and> startsWithCI p s then Some i else findIndexCI ps s (i + 1))"

definition matchName :: "string list \<Rightarrow> string list \<Rightarrow> string \<Rightarrow> (nat option \<times> string) option" where
  "matchName alternatives parsePatterns s =
     (case matchAlternatives alternatives s of
        None \<Rightarrow> None
      | Some matched \<Rightarrow> Some (findIndexCI parsePatterns matched 0, drop (length matched) s))"

definition orElse :: "'a option \<Rightarrow> 'a option \<Rightarrow> 'a option" where
  "orElse a b = (case a of None \<Rightarrow> b | Some x \<Rightarrow> Some x)"

definition monthsWide :: "string list" where
  "monthsWide = [''january'', ''february'', ''march'', ''april'', ''may'', ''june'', ''july'',
     ''august'', ''september'', ''october'', ''november'', ''december'']"

definition monthsAbbreviated :: "string list" where
  "monthsAbbreviated = [''jan'', ''feb'', ''mar'', ''apr'', ''may'', ''jun'', ''jul'', ''aug'',
     ''sep'', ''oct'', ''nov'', ''dec'']"

definition monthsNarrow :: "string list" where
  "monthsNarrow = [''j'', ''f'', ''m'', ''a'', ''s'', ''o'', ''n'', ''d'']"

definition monthsParseAny :: "string list" where
  "monthsParseAny = [''ja'', ''f'', ''mar'', ''ap'', ''may'', ''jun'', ''jul'', ''au'', ''s'',
     ''o'', ''n'', ''d'']"

definition monthsParseNarrow :: "string list" where
  "monthsParseNarrow = [''j'', ''f'', ''m'', ''a'', ''m'', ''j'', ''j'', ''a'', ''s'', ''o'',
     ''n'', ''d'']"

definition daysWide :: "string list" where
  "daysWide = [''sunday'', ''monday'', ''tuesday'', ''wednesday'', ''thursday'', ''friday'',
     ''saturday'']"

definition daysAbbreviated :: "string list" where
  "daysAbbreviated = [''sun'', ''mon'', ''tue'', ''wed'', ''thu'', ''fri'', ''sat'']"

definition daysShort :: "string list" where
  "daysShort = [''su'', ''mo'', ''tu'', ''we'', ''th'', ''fr'', ''sa'']"

definition daysNarrow :: "string list" where
  "daysNarrow = [''s'', ''m'', ''t'', ''w'', ''f'']"

definition daysParseAny :: "string list" where
  "daysParseAny = [''su'', ''m'', ''tu'', ''w'', ''th'', ''f'', ''sa'']"

definition daysParseNarrow :: "string list" where
  "daysParseNarrow = [''s'', ''m'', ''t'', ''w'', ''t'', ''f'', ''s'']"

definition indexValue :: "(nat option \<times> string) option \<Rightarrow> (int \<times> string) option" where
  \<comment> \<open>A name that no parse pattern knows has no value; the tables above leave none.\<close>
  "indexValue r =
     (case r of Some (Some i, rest) \<Rightarrow> Some (int i, rest) | _ \<Rightarrow> None)"

definition matchMonth :: "bool \<Rightarrow> string \<Rightarrow> (int \<times> string) option" where
  \<comment> \<open>\<open>MMMM\<close> tries the wide names first; \<open>MMM\<close> starts with the abbreviated ones.\<close>
  "matchMonth wide s =
     indexValue
       (orElse (if wide then matchName monthsWide monthsParseAny s else None)
          (orElse (matchName monthsAbbreviated monthsParseAny s)
             (matchName monthsNarrow monthsParseNarrow s)))"

definition matchDay :: "string \<Rightarrow> (int \<times> string) option" where
  "matchDay s =
     indexValue
       (orElse (matchName daysWide daysParseAny s)
          (orElse (matchName daysAbbreviated daysParseAny s)
             (orElse (matchName daysShort daysParseAny s)
                (matchName daysNarrow daysParseNarrow s))))"

paragraph \<open>Reading the day period\<close>

definition periodPhrases :: "string list" where
  "periodPhrases =
     [''in the morning'', ''in the afternoon'', ''in the evening'', ''in the night'',
      ''at morning'', ''at afternoon'', ''at evening'', ''at night'']"

definition matchMeridiem :: "string \<Rightarrow> string option" where
  \<comment> \<open>\<open>[ap]\.?\s?m\.?\<close> with flag \<open>i\<close>: the text it reads.\<close>
  "matchMeridiem s =
     (if startsWithCI ''a'' s \<or> startsWithCI ''p'' s then
        (let r1 = drop 1 s;
             r2 = (if take 1 r1 = ''.'' then drop 1 r1 else r1);
             r3 = (case r2 of c # cs \<Rightarrow> if isSpace c then cs else r2 | [] \<Rightarrow> r2)
         in if startsWithCI ''m'' r3
            then (let r4 = drop 1 r3; r5 = (if take 1 r4 = ''.'' then drop 1 r4 else r4)
                  in Some (take (length s - length r5) s))
            else None)
      else None)"

definition periodOf :: "string \<Rightarrow> DayPeriod" where
  \<comment> \<open>The first key of the parse patterns that matches the text read.\<close>
  "periodOf matched =
     (if startsWithCI ''a'' matched then AM
      else if startsWithCI ''p'' matched then PM
      else if startsWithCI ''mi'' matched then Midnight
      else if startsWithCI ''no'' matched then Noon
      else if includesStr (toLowerCase matched) ''morning'' then Morning
      else if includesStr (toLowerCase matched) ''afternoon'' then Afternoon
      else if includesStr (toLowerCase matched) ''evening'' then Evening
      else if includesStr (toLowerCase matched) ''night'' then Night
      else NoPeriod)"

definition matchDayPeriod :: "string \<Rightarrow> (DayPeriod \<times> string) option" where
  \<comment> \<open>The pattern for any width first, then the narrow one.\<close>
  "matchDayPeriod s =
     (case orElse (orElse (matchMeridiem s)
                     (matchAlternatives ([''midnight'', ''noon''] @ periodPhrases) s))
                  (matchAlternatives ([''a'', ''p'', ''mi'', ''n''] @ periodPhrases) s) of
        None \<Rightarrow> None
      | Some matched \<Rightarrow> Some (periodOf matched, drop (length matched) s))"

definition dayPeriodEnumToHours :: "DayPeriod \<Rightarrow> nat" where
  "dayPeriodEnumToHours p =
     (case p of
        Morning \<Rightarrow> 4
      | Evening \<Rightarrow> 17
      | PM \<Rightarrow> 12 | Noon \<Rightarrow> 12 | Afternoon \<Rightarrow> 12
      | _ \<Rightarrow> 0)"

paragraph \<open>Tokens\<close>

definition withSetter :: "(int \<Rightarrow> Setter) \<Rightarrow> (int \<times> string) option \<Rightarrow> (Setter \<times> string) option" where
  "withSetter f r = (case r of None \<Rightarrow> None | Some (v, rest) \<Rightarrow> Some (f v, rest))"

definition runParser :: "string \<Rightarrow> string \<Rightarrow> (Setter \<times> string) option" where
  \<comment> \<open>The parser of a token of letters, run on the input.\<close>
  "runParser token s =
     (if token = ''yyyy'' then withSetter YearSetter (parseDigits 4 s)
      else if token = ''MMMM'' then withSetter MonthSetter (matchMonth True s)
      else if token = ''MMM'' then withSetter MonthSetter (matchMonth False s)
      else if token = ''MM'' then withSetter (\<lambda>v. MonthSetter (v - 1)) (parseDigits 2 s)
      else if token = ''d'' then withSetter DateSetter (parseDateNumber s)
      else if token = ''dd'' then withSetter DateSetter (parseDigits 2 s)
      else if token = ''EEEE'' then withSetter DaySetter (matchDay s)
      else if token = ''a'' then
        (case matchDayPeriod s of None \<Rightarrow> None | Some (p, rest) \<Rightarrow> Some (AMPMSetter p, rest))
      else if token = ''h'' then withSetter Hour1to12Setter (parseHour12 s)
      else if token = ''HH'' then withSetter Hour0to23Setter (parseDigits 2 s)
      else if token = ''mm'' then withSetter MinuteSetter (parseDigits 2 s)
      else None)"

fun runTokens :: "string list \<Rightarrow> string \<Rightarrow> (Setter list \<times> string) option" where
  \<comment> \<open>The loop over the tokens: the setters read, in order, and the input left.\<close>
  "runTokens [] s = Some ([], s)"
| "runTokens (token # tokens) s =
     (if isWordChar (hd token) then
        (case runParser token s of
           None \<Rightarrow> None
         | Some (setter, rest) \<Rightarrow>
             (case runTokens tokens rest of
                None \<Rightarrow> None
              | Some (setters, rest') \<Rightarrow> Some (setter # setters, rest')))
      else if prefix token s then runTokens tokens (drop (length token) s)
      else None)"

paragraph \<open>Setters\<close>

fun bestSetter :: "Setter list \<Rightarrow> Setter option" where
  \<comment> \<open>Of the setters of one priority, the first with the highest sub-priority.\<close>
  "bestSetter [] = None"
| "bestSetter (s # ss) =
     (case bestSetter ss of
        None \<Rightarrow> Some s
      | Some b \<Rightarrow> if subPriority s < subPriority b then Some b else Some s)"

definition uniquePrioritySetters :: "Setter list \<Rightarrow> Setter list" where
  "uniquePrioritySetters setters =
     List.map_filter (\<lambda>p. bestSetter (filter (\<lambda>s. priority s = p) setters))
       (remdups (rev (sort (map priority setters))))"

definition getDay :: "JSDate \<Rightarrow> int" where
  \<comment> \<open>The day of the week, Sunday 0; the first of January 1970 was a Thursday.\<close>
  "getDay d = (MakeDay (getFullYear d) (getMonth d) (int (getDate d)) + 4) mod 7"

definition setHours :: "JSDate \<Rightarrow> nat \<Rightarrow> JSDate" where
  \<comment> \<open>\<open>date.setHours(h, 0, 0, 0)\<close>\<close>
  "setHours d h = d\<lparr>getHours := h, getMinutes := 0, getSeconds := 0, getMilliseconds := 0\<rparr>"

fun validate :: "JSDate \<Rightarrow> Setter \<Rightarrow> bool" where
  "validate d (YearSetter y) = (0 < y)"
| "validate d (MonthSetter m) = (0 \<le> m \<and> m \<le> 11)"
| "validate d (DateSetter v) = (1 \<le> v \<and> v \<le> int (daysInMonth (getFullYear d) (getMonth d)))"
| "validate d (DaySetter v) = (0 \<le> v \<and> v \<le> 6)"
| "validate d (AMPMSetter p) = True"
| "validate d (Hour1to12Setter v) = (1 \<le> v \<and> v \<le> 12)"
| "validate d (Hour0to23Setter v) = (0 \<le> v \<and> v \<le> 23)"
| "validate d (MinuteSetter v) = (0 \<le> v \<and> v \<le> 59)"

fun applySetter :: "JSDate \<Rightarrow> Setter \<Rightarrow> JSDate" where
  "applySetter d (YearSetter y) =
     setHours (d\<lparr>getFullYear := y, getMonth := 0, getDate := 1\<rparr>) 0"
| "applySetter d (MonthSetter m) = setHours (d\<lparr>getMonth := nat m, getDate := 1\<rparr>) 0"
| "applySetter d (DateSetter v) = setHours (setDate d v) 0"
| "applySetter d (DaySetter v) = setHours (setDate d (int (getDate d) + (v - getDay d))) 0"
| "applySetter d (AMPMSetter p) = setHours d (dayPeriodEnumToHours p)"
| "applySetter d (Hour1to12Setter v) =
     (if 12 \<le> getHours d \<and> v < 12 then setHours d (nat v + 12)
      else if getHours d < 12 \<and> v = 12 then setHours d 0
      else setHours d (nat v))"
| "applySetter d (Hour0to23Setter v) = setHours d (nat v)"
| "applySetter d (MinuteSetter v) = d\<lparr>getMinutes := nat v, getSeconds := 0, getMilliseconds := 0\<rparr>"

fun applySetters :: "Setter list \<Rightarrow> JSDate \<Rightarrow> JSDate option" where
  "applySetters [] d = Some d"
| "applySetters (s # ss) d = (if validate d s then applySetters ss (applySetter d s) else None)"

definition dateFnsParse :: Parser where
  "dateFnsParse dateStr formatStr referenceDate =
     (if formatStr = [] then (if dateStr = [] then Some referenceDate else None)
      else (case runTokens (formatTokens formatStr) dateStr of
              None \<Rightarrow> None
            | Some (setters, rest) \<Rightarrow>
                if \<exists>c\<in>set rest. \<not> isSpace c then None
                else applySetters (uniquePrioritySetters setters) referenceDate))"

subsection \<open>A model of the time zone\<close>

text \<open>
  The rules of America/Vancouver in force since 2007: daylight saving time (UTC-7) from
  02:00 on the second Sunday of March to 02:00 on the first Sunday of November, standard
  time (UTC-8) otherwise. The argument is a wall-clock time. What the time zone database
  says for earlier years, and what the library answers in the hour that is skipped in
  March and the hour that is repeated in November, are not modelled.
\<close>

definition firstSunday :: "int \<Rightarrow> nat \<Rightarrow> nat" where
  \<comment> \<open>The day of the month of the first Sunday of a month.\<close>
  "firstSunday y m = 1 + nat ((7 - (MakeDay y m 1 + 4) mod 7) mod 7)"

definition vancouverDST :: "JSDate \<Rightarrow> bool" where
  "vancouverDST d =
     (let m = getMonth d; day = getDate d; y = getFullYear d
      in if m = 2 then
           (let start = firstSunday y 2 + 7
            in start < day \<or> (day = start \<and> 2 \<le> getHours d))
         else if m = 10 then
           (let finish = firstSunday y 10
            in day < finish \<or> (day = finish \<and> getHours d < 2))
         else 2 < m \<and> m < 10)"

definition vancouverZone :: Zone where
  "vancouverZone d = (if vancouverDST d then 7 else 8) * 3600000"

subsection \<open>Example dates\<close>

definition civil :: "int \<Rightarrow> nat \<Rightarrow> nat \<Rightarrow> nat \<Rightarrow> nat \<Rightarrow> JSDate" where
  \<comment> \<open>A date to the minute; the month counts from 0.\<close>
  "civil y m d h mi =
     \<lparr>getFullYear = y, getMonth = m, getDate = d, getHours = h, getMinutes = mi,
      getSeconds = 0, getMilliseconds = 0\<rparr>"

section \<open>Fingerprints and normalised events\<close>

subsection \<open>The deduplication hash\<close>

text \<open>
  The digest of Node's \<open>crypto\<close> module is a parameter: \<open>md5 s\<close> stands for
  \<open>createHash('md5').update(s).digest('hex')\<close>, the MD5 digest of the UTF-8 encoding of
  \<open>s\<close> as 32 hexadecimal digits.
\<close>

type_synonym Digest = "string \<Rightarrow> string"

definition normalizeTitle :: "string \<Rightarrow> string" where
  \<comment> \<open>\<open>title.toLowerCase().trim().replace(/\s+/g, ' ')\<close>\<close>
  "normalizeTitle t = collapseWhitespace (trim (toLowerCase t))"

definition hashInput :: "string \<Rightarrow> JSDate \<Rightarrow> string \<Rightarrow> string" where
  \<comment> \<open>The template literal \<open>`${venueId}|${dateStr}|${normalizedTitle}`\<close>\<close>
  "hashInput v d t = v @ ''|'' @ isoDate d @ ''|'' @ normalizeTitle t"

definition generateEventHash :: "Digest \<Rightarrow> string \<Rightarrow> JSDate \<Rightarrow> string \<Rightarrow> string" where
  "generateEventHash md5 v d t = md5 (hashInput v d t)"

subsection \<open>Normalised events\<close>

record NormalizedEvent =
  ev_id :: string
  ev_venueId :: string
  ev_title :: string
  ev_date :: JSDate
  ev_doorsTime :: "JSDate option"
  ev_url :: "string option"
  ev_price :: "int option"
  ev_isFree :: bool
  ev_eventType :: EventType
  ev_hash :: string

text \<open>
  The surroundings of the normalisation: the parser of date-fns, the time zone, the
  digest, the clock (\<open>new Date()\<close>, the reference date of every parse; one value for the
  whole batch) and the identifiers \<open>randomUUID()\<close> returns, in the order of the calls.
\<close>

record Surroundings =
  dateParser :: Parser
  zone :: Zone
  digest :: Digest
  now :: JSDate
  randomUUID :: "nat \<Rightarrow> string"

definition parseDate :: "Surroundings \<Rightarrow> string \<Rightarrow> JSDate option" where
  \<comment> \<open>\<open>parseVancouverDate(raw)\<close> with the default reference date.\<close>
  "parseDate env raw = parseVancouverDate (dateParser env) (zone env) raw (now env)"

definition parseDoors :: "Surroundings \<Rightarrow> string option \<Rightarrow> JSDate option" where
  \<comment> \<open>\<open>raw.doorsRaw ? parseVancouverDate(raw.doorsRaw) : null\<close>\<close>
  "parseDoors env doors =
     (case doors of None \<Rightarrow> None | Some s \<Rightarrow> if s = [] then None else parseDate env s)"

definition orNull :: "string option \<Rightarrow> string option" where
  \<comment> \<open>\<open>raw.url || null\<close>\<close>
  "orNull u = (case u of None \<Rightarrow> None | Some s \<Rightarrow> if s = [] then None else Some s)"

fun normalizeLoop ::
  "Surroundings \<Rightarrow> string \<Rightarrow> RawEvent list \<Rightarrow> NormalizedEvent list \<Rightarrow> NormalizedEvent list" where
  \<comment> \<open>The loop of \<open>normalizeEvents\<close> over the raw events, with the array built so far.\<close>
  "normalizeLoop env v [] normalized = normalized"
| "normalizeLoop env v (raw # rest) normalized =
     (case parseDate env (dateRaw raw) of
        None \<Rightarrow> normalizeLoop env v rest normalized
      | Some d \<Rightarrow>
          normalizeLoop env v rest
            (normalized @
             [\<lparr>ev_id = randomUUID env (length normalized),
               ev_venueId = v,
               ev_title = title raw,
               ev_date = d,
               ev_doorsTime = parseDoors env (doorsRaw raw),
               ev_url = orNull (url raw),
               ev_price = price (parsePrice (priceRaw raw)),
               ev_isFree = isFree (parsePrice (priceRaw raw)),
               ev_eventType = classifyEventType (title raw),
               ev_hash = generateEventHash (digest env) v d (title raw)\<rparr>]))"

definition normalizeEvents :: "Surroundings \<Rightarrow> string \<Rightarrow> RawEvent list \<Rightarrow> NormalizedEvent list" where
  "normalizeEvents env v rawEvents = normalizeLoop env v rawEvents []"

text \<open>
  The copy of \<open>normalizeEvents\<close> in the API route adds two time stamps to every event.
\<close>

record ApiEvent = NormalizedEvent +
  createdAt :: JSDate
  updatedAt :: JSDate

fun normalizeLoopApi ::
  "Surroundings \<Rightarrow> string \<Rightarrow> RawEvent list \<Rightarrow> ApiEvent list \<Rightarrow> ApiEvent list" where
  "normalizeLoopApi env v [] normalized = normalized"
| "normalizeLoopApi env v (raw # rest) normalized =
     (case parseDate env (dateRaw raw) of
        None \<Rightarrow> normalizeLoopApi env v rest normalized
      | Some d \<Rightarrow>
          normalizeLoopApi env v rest
            (normalized @
             [\<lparr>ev_id = randomUUID env (length normalized),
               ev_venueId = v,
               ev_title = title raw,
               ev_date = d,
               ev_doorsTime = parseDoors env (doorsRaw raw),
               ev_url = orNull (url raw),
               ev_price = price (parsePrice (priceRaw raw)),
               ev_isFree = isFree (parsePrice (priceRaw raw)),
               ev_eventType = classifyEventType (title raw),
               ev_hash = generateEventHash (digest env) v d (title raw),
               createdAt = now env,
               updatedAt = now env\<rparr>]))"

definition normalizeEventsApi :: "Surroundings \<Rightarrow> string \<Rightarrow> RawEvent list \<Rightarrow> ApiEvent list" where
  "normalizeEventsApi env v rawEvents = normalizeLoopApi env v rawEvents []"

definition scrapeAndNormalize ::
  "Surroundings \<Rightarrow> EthicalScraper \<Rightarrow> World \<Rightarrow> VenueScraper \<Rightarrow> ScrapeResult \<times> NormalizedEvent list" where
  \<comment> \<open>The body of the orchestrator's loop: the events of a successful venue are
      normalised, the result is pushed as it is.\<close>
  "scrapeAndNormalize env s w v =
     (let result = fst (runScraper s w v)
      in (result,
          if status result = Success then normalizeEvents env (venue_id v) (events result)
          else []))"

definition parsesDate :: "Surroundings \<Rightarrow> RawEvent \<Rightarrow> bool" where
  \<comment> \<open>The primary date string of a raw event parses.\<close>
  "parsesDate env raw \<longleftrightarrow> parseDate env (dateRaw raw) \<noteq> None"

subsection \<open>An example batch\<close>

definition exampleBatch :: "RawEvent list" where
  \<comment> \<open>Three listings: a complete one, one without a date yet, one whose doors time is
      not known.\<close>
  "exampleBatch =
     [\<lparr>title = ''Punk Night'', dateRaw = ''Friday, January 12, 2024 7:30 PM'', url = None,
       priceRaw = Some ''$15'', doorsRaw = Some ''Doors @ 7pm''\<rparr>,
      \<lparr>title = ''Mystery Guest'', dateRaw = ''TBA'', url = None,
       priceRaw = None, doorsRaw = None\<rparr>,
      \<lparr>title = ''Jazz Concert'', dateRaw = ''July 12, 2024 7:30 PM'',
       url = Some ''https://rickshawtheatre.com/events/jazz'',
       priceRaw = Some ''Free'', doorsRaw = Some ''TBA''\<rparr>]"

section \<open>Properties of the classifier\<close>

subsection \<open>Event types\<close>










subsection \<open>Prices\<close>








text \<open>
  Claim C10. Whenever \<open>parsePrice\<close> reports \<open>isFree\<close>, the price is 0: the flag is never
  paired with a null or a non-zero price. The converse does not hold: \<open>$0.00\<close> is a
  numerically parsed zero that is not flagged free.
\<close>

theorem parsePrice_free_is_zero:
  "(isFree (parsePrice raw) \<longrightarrow> price (parsePrice raw) = Some 0) \<and>
   parsePrice (Some ''$0.00'') = \<lparr>price = Some 0, isFree = False\<rparr>"
proof -
  have "isFree (parsePrice raw) \<longrightarrow> price (parsePrice raw) = Some 0"
    by (simp add: parsePrice_def Let_def split: option.split)
  moreover have "parsePrice (Some ''$0.00'') = \<lparr>price = Some 0, isFree = False\<rparr>"
    by code_simp
  ultimately show ?thesis by simp
qed

theorem parsePrice_free_is_zero_witness:
  "isFree (parsePrice (Some ''Free show'')) \<and> price (parsePrice (Some ''Free show'')) = Some 0"
proof -
  have h: "isFree (parsePrice (Some ''Free show''))" by code_simp
  show ?thesis using parsePrice_free_is_zero [of "Some ''Free show''"] h by simp
qed

section \<open>Properties of the scraper core\<close>

lemma attemptsOf_append: "attemptsOf (xs @ ys) = attemptsOf xs + attemptsOf ys"
  by (simp add: attemptsOf_def)

lemma tryAttempt_attempts: "attemptsOf (snd (tryAttempt s w v k)) = 1"
  by (simp add: tryAttempt_def attemptsOf_def Let_def split: Outcome.split)

lemma tryAttempt_uninitialized:
  "\<not> contextOpen s \<Longrightarrow> tryAttempt s w v k = (Throws NOT_INITIALIZED, [AttemptStarted k])"
  by (simp add: tryAttempt_def fetchDynamic_def)

lemma tryAttempt_throws:
  assumes "(\<exists>m. navigate w (venue_url v) k = Throws m) \<or> (\<exists>m. scrape w (venue_id v) k = Throws m)"
  shows "\<exists>m. fst (tryAttempt s w v k) = Throws m"
  using assms
  by (auto simp: tryAttempt_def fetchDynamic_def Let_def split: Outcome.split)

lemma tryAttempt_returns:
  assumes "contextOpen s" "navigate w (venue_url v) k = Returns ()"
    "scrape w (venue_id v) k = Returns es" "closePage w (venue_url v) k = Returns ()"
  shows "tryAttempt s w v k = (Returns es, [AttemptStarted k, PageClosed])"
  using assms by (simp add: tryAttempt_def fetchDynamic_def)

lemma attemptLoop_done:
  "\<not> attempt \<le> maxRetries (config s) \<Longrightarrow>
     attemptLoop s w v attempt lastError log = (errorResult v lastError, log)"
  by (simp add: attemptLoop.simps [of s w v attempt])

lemma attemptLoop_retry:
  "attempt \<le> maxRetries (config s) \<Longrightarrow> tryAttempt s w v attempt = (Throws m, effs) \<Longrightarrow>
     attemptLoop s w v attempt lastError log =
       attemptLoop s w v (attempt + 1) (Some m)
         (log @ effs @ [AttemptFailed attempt m] @
          (if attempt < maxRetries (config s)
           then [Backoff (delayMs (config s) * 2 ^ (attempt - 1))] else []))"
  by (simp add: attemptLoop.simps [of s w v attempt])

lemma attemptLoop_success:
  "attempt \<le> maxRetries (config s) \<Longrightarrow> tryAttempt s w v attempt = (Returns evs, effs) \<Longrightarrow>
     attemptLoop s w v attempt lastError log =
       (\<lparr>venueId = venue_id v, status = Success, events = evs, errorMessage = None\<rparr>,
        log @ effs)"
  by (simp add: attemptLoop.simps [of s w v attempt])

lemma attemptLoop_all_fail:
  assumes "\<forall>k. a \<le> k \<and> k \<le> maxRetries (config s) \<longrightarrow> (\<exists>m. fst (tryAttempt s w v k) = Throws m)"
  shows "fst (attemptLoop s w v a le log) =
           errorResult v (if a \<le> maxRetries (config s)
                          then (case fst (tryAttempt s w v (maxRetries (config s))) of
                                  Throws m \<Rightarrow> Some m | Returns _ \<Rightarrow> None)
                          else le) \<and>
         attemptsOf (snd (attemptLoop s w v a le log)) =
           attemptsOf log + (maxRetries (config s) + 1 - a)"
  using assms
proof (induction s w v a le log rule: attemptLoop.induct)
  case (1 s w v attempt lastError log)
  show ?case
  proof (cases "attempt \<le> maxRetries (config s)")
    case False
    then show ?thesis by (simp add: attemptLoop_done)
  next
    case True
    with "1.prems" obtain m where m: "fst (tryAttempt s w v attempt) = Throws m" by blast
    obtain effs where t: "tryAttempt s w v attempt = (Throws m, effs)"
      using m by (cases "tryAttempt s w v attempt") auto
    have effs: "attemptsOf effs = 1"
      using tryAttempt_attempts [of s w v attempt] t by simp
    let ?log = "log @ effs @ [AttemptFailed attempt m] @
                (if attempt < maxRetries (config s)
                 then [Backoff (delayMs (config s) * 2 ^ (attempt - 1))] else [])"
    have step: "attemptLoop s w v attempt lastError log =
        attemptLoop s w v (attempt + 1) (Some m) ?log"
      by (rule attemptLoop_retry [OF True t])
    have prem: "\<forall>k. attempt + 1 \<le> k \<and> k \<le> maxRetries (config s) \<longrightarrow>
        (\<exists>m. fst (tryAttempt s w v k) = Throws m)"
      using "1.prems" by auto
    note IH = "1.IH" [OF True t [symmetric] refl prem]
    have cnt: "attemptsOf ?log = attemptsOf log + 1"
      using effs by (simp add: attemptsOf_append) (simp add: attemptsOf_def)
    show ?thesis
    proof (cases "attempt + 1 \<le> maxRetries (config s)")
      case True
      with IH step cnt \<open>attempt \<le> maxRetries (config s)\<close> show ?thesis by simp
    next
      case False
      with \<open>attempt \<le> maxRetries (config s)\<close> have eq: "attempt = maxRetries (config s)" by simp
      with IH step cnt m False show ?thesis by simp
    qed
  qed
qed

lemma backoffsOf_append: "backoffsOf (xs @ ys) = backoffsOf xs @ backoffsOf ys"
  by (simp add: backoffsOf_def)

lemma tryAttempt_backoffs: "backoffsOf (snd (tryAttempt s w v k)) = []"
  by (simp add: tryAttempt_def backoffsOf_def Let_def split: Outcome.split)

lemma attemptLoop_backoffs:
  assumes "\<forall>k. a \<le> k \<and> k \<le> maxRetries (config s) \<longrightarrow> (\<exists>m. fst (tryAttempt s w v k) = Throws m)"
  shows "backoffsOf (snd (attemptLoop s w v a le log)) =
           backoffsOf log @ map (\<lambda>k. delayMs (config s) * 2 ^ (k - 1)) [a..<maxRetries (config s)]"
  using assms
proof (induction s w v a le log rule: attemptLoop.induct)
  case (1 s w v attempt lastError log)
  show ?case
  proof (cases "attempt \<le> maxRetries (config s)")
    case False
    then show ?thesis by (simp add: attemptLoop_done)
  next
    case True
    with "1.prems" obtain m where m: "fst (tryAttempt s w v attempt) = Throws m" by blast
    obtain effs where t: "tryAttempt s w v attempt = (Throws m, effs)"
      using m by (cases "tryAttempt s w v attempt") auto
    have effs: "backoffsOf effs = []"
      using tryAttempt_backoffs [of s w v attempt] t by simp
    let ?log = "log @ effs @ [AttemptFailed attempt m] @
                (if attempt < maxRetries (config s)
                 then [Backoff (delayMs (config s) * 2 ^ (attempt - 1))] else [])"
    have step: "attemptLoop s w v attempt lastError log =
        attemptLoop s w v (attempt + 1) (Some m) ?log"
      by (rule attemptLoop_retry [OF True t])
    have prem: "\<forall>k. attempt + 1 \<le> k \<and> k \<le> maxRetries (config s) \<longrightarrow>
        (\<exists>m. fst (tryAttempt s w v k) = Throws m)"
      using "1.prems" by auto
    note IH = "1.IH" [OF True t [symmetric] refl prem]
    have bk: "backoffsOf ?log = backoffsOf log @
        (if attempt < maxRetries (config s) then [delayMs (config s) * 2 ^ (attempt - 1)] else [])"
      using effs by (simp add: backoffsOf_append) (simp add: backoffsOf_def)
    show ?thesis
    proof (cases "attempt < maxRetries (config s)")
      case True
      then have "[attempt..<maxRetries (config s)] = attempt # [attempt + 1..<maxRetries (config s)]"
        by (simp add: upt_conv_Cons)
      with IH step bk True show ?thesis by simp
    next
      case False
      with IH step bk show ?thesis by simp
    qed
  qed
qed

text \<open>
  Claim C4. When every attempt of an enabled venue fails (the navigation or the venue's
  \<open>scrape\<close> throws at each attempt up to \<open>maxRetries\<close>), \<open>runScraper\<close> makes exactly
  \<open>maxRetries\<close> attempts and returns a result with status \<open>error\<close>, no events and an
  error message that is never empty: the message of the last caught exception, or
  \<open>Unknown error\<close> when that message is empty. No exception leaves \<open>runScraper\<close>: every
  throw of an attempt is a value of \<open>tryAttempt\<close> that the loop consumes. In a run over
  two venues, the failure of the first leaves the second its own result: when the
  second venue's first attempt succeeds, its result is \<open>success\<close> with the events its
  \<open>scrape\<close> returned.
\<close>

theorem runScraper_all_attempts_fail:
  assumes en: "enabled v"
    and fail: "\<forall>k. 1 \<le> k \<and> k \<le> maxRetries (config s) \<longrightarrow>
        (\<exists>m. navigate w (venue_url v) k = Throws m) \<or> (\<exists>m. scrape w (venue_id v) k = Throws m)"
  shows "venueId (fst (runScraper s w v)) = venue_id v \<and>
         status (fst (runScraper s w v)) = Error \<and>
         events (fst (runScraper s w v)) = [] \<and>
         (\<exists>m. errorMessage (fst (runScraper s w v)) = Some m \<and> m \<noteq> []) \<and>
         (0 < maxRetries (config s) \<longrightarrow>
            (\<exists>m. fst (tryAttempt s w v (maxRetries (config s))) = Throws m \<and>
                 errorMessage (fst (runScraper s w v)) =
                   Some (if m = [] then ''Unknown error'' else m))) \<and>
         attemptsOf (snd (runScraper s w v)) = maxRetries (config s) \<and>
         (enabled b \<and> contextOpen s \<and> 0 < maxRetries (config s) \<and>
          navigate w (venue_url b) 1 = Returns () \<and> scrape w (venue_id b) 1 = Returns es \<and>
          closePage w (venue_url b) 1 = Returns () \<longrightarrow>
            map fst (runAll s w [v, b]) =
              [fst (runScraper s w v),
               \<lparr>venueId = venue_id b, status = Success, events = es, errorMessage = None\<rparr>])"
proof -
  let ?N = "maxRetries (config s)"
  have thr: "\<forall>k. 1 \<le> k \<and> k \<le> ?N \<longrightarrow> (\<exists>m. fst (tryAttempt s w v k) = Throws m)"
    using fail tryAttempt_throws by blast
  note L = attemptLoop_all_fail [OF thr, of None "[]"]
  have run: "runScraper s w v = attemptLoop s w v 1 None []"
    using en by (simp add: runScraper_def)
  have r: "fst (runScraper s w v) =
      errorResult v (if 1 \<le> ?N
                     then (case fst (tryAttempt s w v ?N) of Throws m \<Rightarrow> Some m | Returns _ \<Rightarrow> None)
                     else None)"
    using L run by simp
  have n: "attemptsOf (snd (runScraper s w v)) = ?N"
    using L run by (simp add: attemptsOf_def)
  have a: "venueId (fst (runScraper s w v)) = venue_id v"
    "status (fst (runScraper s w v)) = Error" "events (fst (runScraper s w v)) = []"
    unfolding r by (simp_all add: errorResult_def)
  have m: "\<exists>m. errorMessage (fst (runScraper s w v)) = Some m \<and> m \<noteq> []"
    unfolding r by (simp add: errorResult_def split: option.split)
  have l: "0 < ?N \<longrightarrow>
            (\<exists>m. fst (tryAttempt s w v ?N) = Throws m \<and>
                 errorMessage (fst (runScraper s w v)) =
                   Some (if m = [] then ''Unknown error'' else m))"
  proof
    assume pos: "0 < ?N"
    then have "1 \<le> ?N \<and> ?N \<le> ?N" by simp
    with thr obtain m where "fst (tryAttempt s w v ?N) = Throws m" by blast
    with pos show "\<exists>m. fst (tryAttempt s w v ?N) = Throws m \<and>
                 errorMessage (fst (runScraper s w v)) =
                   Some (if m = [] then ''Unknown error'' else m)"
      unfolding r by (auto simp: errorResult_def)
  qed
  have o: "enabled b \<and> contextOpen s \<and> 0 < ?N \<and>
          navigate w (venue_url b) 1 = Returns () \<and> scrape w (venue_id b) 1 = Returns es \<and>
          closePage w (venue_url b) 1 = Returns () \<longrightarrow>
            map fst (runAll s w [v, b]) =
              [fst (runScraper s w v),
               \<lparr>venueId = venue_id b, status = Success, events = es, errorMessage = None\<rparr>]"
  proof (intro impI, elim conjE)
    assume h: "enabled b" "contextOpen s" "0 < ?N" "navigate w (venue_url b) 1 = Returns ()"
      "scrape w (venue_id b) 1 = Returns es" "closePage w (venue_url b) 1 = Returns ()"
    have "fst (runScraper s w b) =
        \<lparr>venueId = venue_id b, status = Success, events = es, errorMessage = None\<rparr>"
    proof -
      have le: "1 \<le> ?N" using h(3) by simp
      show ?thesis
        using h(1) attemptLoop_success [OF le tryAttempt_returns [OF h(2,4,5,6)], of None "[]"]
        by (simp add: runScraper_def)
    qed
    then show "map fst (runAll s w [v, b]) =
              [fst (runScraper s w v),
               \<lparr>venueId = venue_id b, status = Success, events = es, errorMessage = None\<rparr>]"
      by (simp add: runAll_def)
  qed
  from a m l n o show ?thesis by blast
qed

theorem runScraper_all_attempts_fail_witness:
  "map fst (runAll (init (newScraper DEFAULT_CONFIG)) rioDown [rioTheatre, rickshawTheatre]) =
     [\<lparr>venueId = ''rio-theatre'', status = Error, events = [],
       errorMessage = Some ''net::ERR_CONNECTION_REFUSED''\<rparr>,
      \<lparr>venueId = ''rickshaw-theatre'', status = Success, events = rickshawEvents,
       errorMessage = None\<rparr>] \<and>
   attemptsOf (snd (runScraper (init (newScraper DEFAULT_CONFIG)) rioDown rioTheatre)) = 3"
proof -
  let ?s = "init (newScraper DEFAULT_CONFIG)"
  have N: "maxRetries (config ?s) = 3"
    by (simp add: init_def newScraper_def DEFAULT_CONFIG_def)
  have en: "enabled rioTheatre" by (simp add: rioTheatre_def)
  have fail: "\<forall>k. 1 \<le> k \<and> k \<le> maxRetries (config ?s) \<longrightarrow>
      (\<exists>m. navigate rioDown (venue_url rioTheatre) k = Throws m) \<or>
      (\<exists>m. scrape rioDown (venue_id rioTheatre) k = Throws m)"
    by (simp add: rioDown_def)
  have b: "enabled rickshawTheatre \<and> contextOpen ?s \<and> 0 < maxRetries (config ?s) \<and>
      navigate rioDown (venue_url rickshawTheatre) 1 = Returns () \<and>
      scrape rioDown (venue_id rickshawTheatre) 1 = Returns rickshawEvents \<and>
      closePage rioDown (venue_url rickshawTheatre) 1 = Returns ()"
    by (simp add: rioDown_def rickshawTheatre_def rioTheatre_def init_def newScraper_def
        DEFAULT_CONFIG_def)
  have last: "fst (tryAttempt ?s rioDown rioTheatre 3) = Throws ''net::ERR_CONNECTION_REFUSED''"
    by (simp add: tryAttempt_def fetchDynamic_def rioDown_def init_def newScraper_def)
  note T = runScraper_all_attempts_fail [OF en fail, of rickshawTheatre rickshawEvents]
  have r: "fst (runScraper ?s rioDown rioTheatre) =
      \<lparr>venueId = ''rio-theatre'', status = Error, events = [],
       errorMessage = Some ''net::ERR_CONNECTION_REFUSED''\<rparr>"
    using T last N by (cases "fst (runScraper ?s rioDown rioTheatre)") (simp add: rioTheatre_def)
  have "map fst (runAll ?s rioDown [rioTheatre, rickshawTheatre]) =
     [fst (runScraper ?s rioDown rioTheatre),
      \<lparr>venueId = venue_id rickshawTheatre, status = Success, events = rickshawEvents,
       errorMessage = None\<rparr>]"
    using T b by blast
  moreover have "attemptsOf (snd (runScraper ?s rioDown rioTheatre)) = 3"
    using T N by simp
  ultimately show ?thesis
    using r by (simp add: rickshawTheatre_def)
qed

text \<open>
  Claim C5 fails on the code. \<open>fetchDynamic\<close> throws when the context does not exist, but
  it is called inside the \<open>try\<close> block of the retry loop, whose \<open>catch\<close> makes no
  difference between this error and any other. On a scraper that was never initialised
  (or was closed) with the default configuration, the venue is attempted three times,
  with backoffs of 1500 and 3000 ms, and ends with the status \<open>error\<close>; the run goes on
  to the next venue, which ends the same way.
\<close>

theorem runScraper_not_initialized_counterexample:
  "map fst (runAll (newScraper DEFAULT_CONFIG) rioDown [rioTheatre, rickshawTheatre]) =
     [\<lparr>venueId = ''rio-theatre'', status = Error, events = [],
       errorMessage = Some ''EthicalScraper not initialized. Call init() first.''\<rparr>,
      \<lparr>venueId = ''rickshaw-theatre'', status = Error, events = [],
       errorMessage = Some ''EthicalScraper not initialized. Call init() first.''\<rparr>] \<and>
   snd (runScraper (close (init (newScraper DEFAULT_CONFIG))) rioDown rickshawTheatre) =
     [AttemptStarted 1,
      AttemptFailed 1 ''EthicalScraper not initialized. Call init() first.'', Backoff 1500,
      AttemptStarted 2,
      AttemptFailed 2 ''EthicalScraper not initialized. Call init() first.'', Backoff 3000,
      AttemptStarted 3,
      AttemptFailed 3 ''EthicalScraper not initialized. Call init() first.'']"
proof -
  have run: "runScraper s rioDown v =
      (\<lparr>venueId = venue_id v, status = Error, events = [],
        errorMessage = Some NOT_INITIALIZED\<rparr>,
       [AttemptStarted 1, AttemptFailed 1 NOT_INITIALIZED, Backoff 1500,
        AttemptStarted 2, AttemptFailed 2 NOT_INITIALIZED, Backoff 3000,
        AttemptStarted 3, AttemptFailed 3 NOT_INITIALIZED])"
    if "\<not> contextOpen s" "config s = DEFAULT_CONFIG" "enabled v" for s v
  proof -
    have N: "maxRetries (config s) = 3" and D: "delayMs (config s) = 1500"
      using that(2) by (simp_all add: DEFAULT_CONFIG_def)
    note t = tryAttempt_uninitialized [OF that(1), of rioDown v]
    have "attemptLoop s rioDown v 1 None [] =
          attemptLoop s rioDown v (1 + 1) (Some NOT_INITIALIZED)
            [AttemptStarted 1, AttemptFailed 1 NOT_INITIALIZED, Backoff 1500]"
      using attemptLoop_retry [of 1 s rioDown v, OF _ t, of None "[]"] by (simp add: N D)
    also have "\<dots> =
          attemptLoop s rioDown v (1 + 1 + 1) (Some NOT_INITIALIZED)
            [AttemptStarted 1, AttemptFailed 1 NOT_INITIALIZED, Backoff 1500,
             AttemptStarted (1 + 1), AttemptFailed (1 + 1) NOT_INITIALIZED, Backoff 3000]"
      using attemptLoop_retry [of "1 + 1" s rioDown v, OF _ t, of "Some NOT_INITIALIZED"
          "[AttemptStarted 1, AttemptFailed 1 NOT_INITIALIZED, Backoff 1500]"]
      by (simp add: N D)
    also have "\<dots> =
          attemptLoop s rioDown v (1 + 1 + 1 + 1) (Some NOT_INITIALIZED)
            [AttemptStarted 1, AttemptFailed 1 NOT_INITIALIZED, Backoff 1500,
             AttemptStarted (1 + 1), AttemptFailed (1 + 1) NOT_INITIALIZED, Backoff 3000,
             AttemptStarted (1 + 1 + 1), AttemptFailed (1 + 1 + 1) NOT_INITIALIZED]"
      using attemptLoop_retry [of "1 + 1 + 1" s rioDown v, OF _ t, of "Some NOT_INITIALIZED"
          "[AttemptStarted 1, AttemptFailed 1 NOT_INITIALIZED, Backoff 1500,
            AttemptStarted (1 + 1), AttemptFailed (1 + 1) NOT_INITIALIZED, Backoff 3000]"]
      by (simp add: N D)
    also have "\<dots> =
          (errorResult v (Some NOT_INITIALIZED),
            [AttemptStarted 1, AttemptFailed 1 NOT_INITIALIZED, Backoff 1500,
             AttemptStarted (1 + 1), AttemptFailed (1 + 1) NOT_INITIALIZED, Backoff 3000,
             AttemptStarted (1 + 1 + 1), AttemptFailed (1 + 1 + 1) NOT_INITIALIZED])"
      by (rule attemptLoop_done) (simp add: N)
    finally show ?thesis
      using that(3) by (simp add: runScraper_def errorResult_def NOT_INITIALIZED_def)
  qed
  have a: "\<not> contextOpen (newScraper DEFAULT_CONFIG)"
    "config (newScraper DEFAULT_CONFIG) = DEFAULT_CONFIG"
    by (simp_all add: newScraper_def)
  have b: "\<not> contextOpen (close (init (newScraper DEFAULT_CONFIG)))"
    "config (close (init (newScraper DEFAULT_CONFIG))) = DEFAULT_CONFIG"
    by (simp_all add: newScraper_def init_def close_def)
  have e: "enabled rioTheatre" "enabled rickshawTheatre"
    by (simp_all add: rioTheatre_def rickshawTheatre_def)
  show ?thesis
    by (simp add: runAll_def run [OF a e(1)] run [OF a e(2)] run [OF b e(2)])
      (simp add: NOT_INITIALIZED_def rioTheatre_def rickshawTheatre_def)
qed

text \<open>
  Claim C5, amended. A scraper has no context before \<open>init()\<close> and after \<open>close()\<close>. Using
  it then makes \<open>fetchDynamic\<close> throw at every attempt; the throw is caught by the retry
  loop like any other failure: an enabled venue is attempted \<open>maxRetries\<close> times, with
  the exponential backoff between attempts, and ends with the status \<open>error\<close> and the
  message of \<open>fetchDynamic\<close>. The run is not aborted: every venue of the run gets its
  result, \<open>error\<close> when it is enabled and \<open>skipped\<close> when it is not.
\<close>

theorem runScraper_not_initialized:
  assumes closed: "\<not> contextOpen s" and retries: "0 < maxRetries (config s)"
  shows "\<not> contextOpen (newScraper cfg) \<and> \<not> contextOpen (close s') \<and>
    (enabled v \<longrightarrow>
       fst (runScraper s w v) =
         \<lparr>venueId = venue_id v, status = Error, events = [],
          errorMessage = Some NOT_INITIALIZED\<rparr> \<and>
       attemptsOf (snd (runScraper s w v)) = maxRetries (config s) \<and>
       backoffsOf (snd (runScraper s w v)) =
         map (\<lambda>k. delayMs (config s) * 2 ^ (k - 1)) [1..<maxRetries (config s)]) \<and>
    map (status \<circ> fst) (runAll s w venues) =
      map (\<lambda>v. if enabled v then Error else Skipped) venues"
proof -
  let ?N = "maxRetries (config s)"
  have thr: "\<And>v. \<forall>k. 1 \<le> k \<and> k \<le> ?N \<longrightarrow> (\<exists>m. fst (tryAttempt s w v k) = Throws m)"
    using closed by (simp add: tryAttempt_uninitialized)
  have res: "fst (runScraper s w v) =
         \<lparr>venueId = venue_id v, status = Error, events = [],
          errorMessage = Some NOT_INITIALIZED\<rparr>" if "enabled v" for v
    using attemptLoop_all_fail [OF thr, of v None "[]"] that retries closed
    by (simp add: runScraper_def tryAttempt_uninitialized errorResult_def NOT_INITIALIZED_def)
  have cnt: "attemptsOf (snd (runScraper s w v)) = ?N" if "enabled v"
    using attemptLoop_all_fail [OF thr, of v None "[]"] that
    by (simp add: runScraper_def attemptsOf_def)
  have bks: "backoffsOf (snd (runScraper s w v)) =
         map (\<lambda>k. delayMs (config s) * 2 ^ (k - 1)) [1..<?N]" if "enabled v"
    using attemptLoop_backoffs [OF thr, of v None "[]"] that
    by (simp add: runScraper_def backoffsOf_def)
  have st: "status (fst (runScraper s w v)) = (if enabled v then Error else Skipped)" for v
    using res [of v] by (simp add: runScraper_def)
  have all: "map (status \<circ> fst) (runAll s w venues) =
      map (\<lambda>v. if enabled v then Error else Skipped) venues"
    by (simp add: runAll_def st)
  have "\<not> contextOpen (newScraper cfg)" "\<not> contextOpen (close s')"
    by (simp_all add: newScraper_def close_def)
  with res cnt bks all show ?thesis by blast
qed

theorem runScraper_not_initialized_witness:
  "\<not> contextOpen (close (init (newScraper DEFAULT_CONFIG))) \<and>
   0 < maxRetries (config (close (init (newScraper DEFAULT_CONFIG)))) \<and>
   enabled rickshawTheatre \<and>
   fst (runScraper (close (init (newScraper DEFAULT_CONFIG))) rioDown rickshawTheatre) =
     \<lparr>venueId = ''rickshaw-theatre'', status = Error, events = [],
      errorMessage = Some ''EthicalScraper not initialized. Call init() first.''\<rparr> \<and>
   backoffsOf (snd (runScraper (close (init (newScraper DEFAULT_CONFIG))) rioDown rickshawTheatre)) =
     [1500, 3000]"
proof -
  let ?s = "close (init (newScraper DEFAULT_CONFIG))"
  have a: "\<not> contextOpen ?s" by (simp add: close_def)
  have b: "0 < maxRetries (config ?s)"
    by (simp add: close_def init_def newScraper_def DEFAULT_CONFIG_def)
  have c: "enabled rickshawTheatre" by (simp add: rickshawTheatre_def)
  have d: "map (\<lambda>k. delayMs (config ?s) * 2 ^ (k - 1)) [1..<maxRetries (config ?s)] = [1500, 3000]"
    by (simp add: close_def init_def newScraper_def DEFAULT_CONFIG_def upt_rec)
  show ?thesis
    using runScraper_not_initialized [OF a b, of DEFAULT_CONFIG ?s rickshawTheatre rioDown "[]"]
      a b c d
    by (simp add: NOT_INITIALIZED_def rickshawTheatre_def)
qed

section \<open>Properties of the date model\<close>






















lemma tryFormats_first:
  "tryFormats P n ref fmts = Some (d, y) \<longleftrightarrow>
     (\<exists>before fmt after. fmts = before @ fmt # after \<and> (\<forall>f\<in>set before. P n f ref = None) \<and>
        P n fmt ref = Some d \<and> y = includesStr fmt ''yyyy'')"
proof (induction fmts)
  case Nil
  show ?case by simp
next
  case (Cons f fmts)
  show ?case
  proof (cases "P n f ref")
    case None
    then have "tryFormats P n ref (f # fmts) = tryFormats P n ref fmts" by simp
    moreover have "(\<exists>before fmt after. f # fmts = before @ fmt # after \<and>
        (\<forall>f\<in>set before. P n f ref = None) \<and> P n fmt ref = Some d \<and> y = includesStr fmt ''yyyy'') \<longleftrightarrow>
      (\<exists>before fmt after. fmts = before @ fmt # after \<and>
        (\<forall>f\<in>set before. P n f ref = None) \<and> P n fmt ref = Some d \<and> y = includesStr fmt ''yyyy'')"
      (is "?L \<longleftrightarrow> ?R")
    proof
      assume ?L
      then obtain before fmt after where h: "f # fmts = before @ fmt # after"
        "\<forall>f\<in>set before. P n f ref = None" "P n fmt ref = Some d" "y = includesStr fmt ''yyyy''"
        by blast
      from h(1,3) None obtain b' where "before = f # b'" by (cases before) auto
      with h show ?R by auto
    next
      assume ?R
      then obtain before fmt after where h: "fmts = before @ fmt # after"
        "\<forall>f\<in>set before. P n f ref = None" "P n fmt ref = Some d" "y = includesStr fmt ''yyyy''"
        by blast
      then have "f # fmts = (f # before) @ fmt # after" "\<forall>g\<in>set (f # before). P n g ref = None"
        using None by simp_all
      with h(3,4) show ?L by blast
    qed
    ultimately show ?thesis using Cons.IH by simp
  next
    case (Some r)
    show ?thesis
    proof
      assume "tryFormats P n ref (f # fmts) = Some (d, y)"
      with Some have "r = d" "y = includesStr f ''yyyy''" by simp_all
      with Some have "f # fmts = [] @ f # fmts \<and> (\<forall>f\<in>set []. P n f ref = None) \<and>
          P n f ref = Some d \<and> y = includesStr f ''yyyy''" by simp
      then show "\<exists>before fmt after. f # fmts = before @ fmt # after \<and>
          (\<forall>f\<in>set before. P n f ref = None) \<and> P n fmt ref = Some d \<and> y = includesStr fmt ''yyyy''"
        by blast
    next
      assume "\<exists>before fmt after. f # fmts = before @ fmt # after \<and>
          (\<forall>f\<in>set before. P n f ref = None) \<and> P n fmt ref = Some d \<and> y = includesStr fmt ''yyyy''"
      then obtain before fmt after where h: "f # fmts = before @ fmt # after"
        "\<forall>f\<in>set before. P n f ref = None" "P n fmt ref = Some d" "y = includesStr fmt ''yyyy''"
        by blast
      have "before = []"
      proof (rule ccontr)
        assume "before \<noteq> []"
        with h(1) have "f \<in> set before" by (cases before) auto
        with h(2) Some show False by simp
      qed
      with h Some show "tryFormats P n ref (f # fmts) = Some (d, y)" by simp
    qed
  qed
qed

lemma tryFormats_none:
  "tryFormats P n ref fmts = None \<longleftrightarrow> (\<forall>f\<in>set fmts. P n f ref = None)"
  by (induction fmts) (auto split: option.splits)

section \<open>Properties of the date parser\<close>

subsection \<open>Evaluating the examples\<close>

lemma dateFnsParse_no_tokens:
  "fmt \<noteq> [] \<Longrightarrow> runTokens (formatTokens fmt) s = None \<Longrightarrow> dateFnsParse s fmt r = None"
  by (simp add: dateFnsParse_def)

lemma dateFnsParse_setters:
  "fmt \<noteq> [] \<Longrightarrow> runTokens (formatTokens fmt) s = Some (setters, []) \<Longrightarrow>
     dateFnsParse s fmt r = applySetters (uniquePrioritySetters setters) r"
  by (simp add: dateFnsParse_def)



lemma friday_parses:
  "dateFnsParse ''Friday, January 12, 2024 7:30 PM'' ''EEEE, MMMM d, yyyy h:mm a'' r =
     Some (civil 2024 0 12 19 30)"
proof -
  have "runTokens (formatTokens ''EEEE, MMMM d, yyyy h:mm a'') ''Friday, January 12, 2024 7:30 PM'' =
      Some ([DaySetter 5, MonthSetter 0, DateSetter 12, YearSetter 2024, Hour1to12Setter 7,
             MinuteSetter 30, AMPMSetter PM], [])"
    by code_simp
  moreover have "uniquePrioritySetters
        [DaySetter 5, MonthSetter 0, DateSetter 12, YearSetter 2024, Hour1to12Setter 7,
         MinuteSetter 30, AMPMSetter PM] =
      [YearSetter 2024, MonthSetter 0, DateSetter 12, AMPMSetter PM, Hour1to12Setter 7,
       MinuteSetter 30]"
    by code_simp
  moreover have "applySetters
        [YearSetter 2024, MonthSetter 0, DateSetter 12, AMPMSetter PM, Hour1to12Setter 7,
         MinuteSetter 30] r = Some (civil 2024 0 12 19 30)"
    by (cases r)
      (simp add: civil_def setHours_def setDate_def dayAfter.simps daysInMonth_def
        dayPeriodEnumToHours_def)
  ultimately show ?thesis
    by (simp add: dateFnsParse_setters)
qed

lemma july_fails:
  "dateFnsParse ''July 12, 2024 7:30 PM'' ''EEEE, MMMM d, yyyy h:mm a'' r = None"
proof -
  have "runTokens (formatTokens ''EEEE, MMMM d, yyyy h:mm a'') ''July 12, 2024 7:30 PM'' = None"
    by code_simp
  then show ?thesis by (simp add: dateFnsParse_no_tokens)
qed

lemma july_parses:
  "dateFnsParse ''July 12, 2024 7:30 PM'' ''MMMM d, yyyy h:mm a'' r = Some (civil 2024 6 12 19 30)"
proof -
  have "runTokens (formatTokens ''MMMM d, yyyy h:mm a'') ''July 12, 2024 7:30 PM'' =
      Some ([MonthSetter 6, DateSetter 12, YearSetter 2024, Hour1to12Setter 7,
             MinuteSetter 30, AMPMSetter PM], [])"
    by code_simp
  moreover have "uniquePrioritySetters
        [MonthSetter 6, DateSetter 12, YearSetter 2024, Hour1to12Setter 7,
         MinuteSetter 30, AMPMSetter PM] =
      [YearSetter 2024, MonthSetter 6, DateSetter 12, AMPMSetter PM, Hour1to12Setter 7,
       MinuteSetter 30]"
    by code_simp
  moreover have "applySetters
        [YearSetter 2024, MonthSetter 6, DateSetter 12, AMPMSetter PM, Hour1to12Setter 7,
         MinuteSetter 30] r = Some (civil 2024 6 12 19 30)"
    by (cases r)
      (simp add: civil_def setHours_def setDate_def dayAfter.simps daysInMonth_def
        dayPeriodEnumToHours_def)
  ultimately show ?thesis
    by (simp add: dateFnsParse_setters)
qed

lemma zone_january: "vancouverZone (civil 2024 0 12 19 30) = 8 * 3600000"
  by (simp add: vancouverZone_def vancouverDST_def civil_def)

lemma zone_july: "vancouverZone (civil 2024 6 12 19 30) = 7 * 3600000"
  by (simp add: vancouverZone_def vancouverDST_def civil_def)

lemma addMilliseconds_eval:
  "addMilliseconds (civil 2024 0 12 19 30) 28800000 = civil 2024 0 13 3 30"
  "addMilliseconds (civil 2024 6 12 19 30) 25200000 = civil 2024 6 13 2 30"
  "addMilliseconds (civil 2024 0 4 20 0) 28800000 = civil 2024 0 5 4 0"
  by (simp_all add: civil_def addMilliseconds_def Let_def timeInDay_def MakeTime_def msPerDay_def
      setDate_def dayAfter.simps daysInMonth_def)

lemma normalize_examples:
  "normalizeInput ''Friday, January 12, 2024 7:30 PM'' = ''Friday, January 12, 2024 7:30 PM''"
  "normalizeInput ''July 12, 2024 7:30 PM'' = ''July 12, 2024 7:30 PM''"
  "normalizeInput ''Jan 4 8:00 PM'' = ''Jan 4 8:00 PM''"
  by code_simp+

lemma formats_with_year:
  "includesStr ''EEEE, MMMM d, yyyy h:mm a'' ''yyyy''"
  "includesStr ''MMMM d, yyyy h:mm a'' ''yyyy''"
  "\<not> includesStr ''MMMM d h:mm a'' ''yyyy''"
  by code_simp+

lemma friday_example:
  "parseVancouverDate dateFnsParse vancouverZone ''Friday, January 12, 2024 7:30 PM'' r =
     Some (civil 2024 0 13 3 30)"
  by (simp add: parseVancouverDate_def normalize_examples DATE_FORMATS_def friday_parses
      formats_with_year fromZonedTime_def zone_january addMilliseconds_eval)

lemma july_example:
  "parseVancouverDate dateFnsParse vancouverZone ''July 12, 2024 7:30 PM'' r =
     Some (civil 2024 6 13 2 30)"
  by (simp add: parseVancouverDate_def normalize_examples DATE_FORMATS_def july_fails july_parses
      formats_with_year fromZonedTime_def zone_july addMilliseconds_eval)



subsection \<open>Year inference and the time zone\<close>

lemma parseVancouverDate_winner:
  assumes "raw \<noteq> []"
    and "DATE_FORMATS = before @ fmt # after"
    and "\<forall>f\<in>set before. P (normalizeInput raw) f ref = None"
    and "P (normalizeInput raw) fmt ref = Some parsed"
  shows "parseVancouverDate P tz raw ref =
    Some (fromZonedTime tz (if includesStr fmt ''yyyy'' then parsed else inferYear parsed ref))"
proof -
  have "tryFormats P (normalizeInput raw) ref DATE_FORMATS = Some (parsed, includesStr fmt ''yyyy'')"
    unfolding tryFormats_first using assms(2,3,4) by blast
  then show ?thesis using assms(1) by (simp add: parseVancouverDate_def)
qed







subsection \<open>Preprocessing and the order of the formats\<close>







lemma parseVancouverDate_none:
  "parseVancouverDate P tz raw ref = None \<longleftrightarrow>
     raw = [] \<or> (\<forall>f\<in>set DATE_FORMATS. P (normalizeInput raw) f ref = None)"
  by (auto simp: parseVancouverDate_def tryFormats_none [symmetric] split: option.splits)



lemma doors7_fails:
  "f \<in> set [''EEEE, MMMM d, yyyy h:mm a'', ''MMMM d, yyyy h:mm a'', ''MMM d, yyyy h:mm a'',
       ''MMMM d, yyyy'', ''MMM d, yyyy'', ''yyyy-MM-dd HH:mm'', ''yyyy-MM-dd'',
       ''EEEE, MMMM d h:mm a'', ''EEEE MMMM d h:mm a'', ''MMMM d h:mm a'', ''MMM d h:mm a'',
       ''EEEE, MMMM d'', ''MMMM d'', ''MMM d'', ''h:mm a''] \<Longrightarrow>
   dateFnsParse ''7 pm'' f r = None"
proof -
  have "runTokens (formatTokens ''EEEE, MMMM d, yyyy h:mm a'') ''7 pm'' = None" by code_simp
  moreover have "runTokens (formatTokens ''MMMM d, yyyy h:mm a'') ''7 pm'' = None" by code_simp
  moreover have "runTokens (formatTokens ''MMM d, yyyy h:mm a'') ''7 pm'' = None" by code_simp
  moreover have "runTokens (formatTokens ''MMMM d, yyyy'') ''7 pm'' = None" by code_simp
  moreover have "runTokens (formatTokens ''MMM d, yyyy'') ''7 pm'' = None" by code_simp
  moreover have "runTokens (formatTokens ''yyyy-MM-dd HH:mm'') ''7 pm'' = None" by code_simp
  moreover have "runTokens (formatTokens ''yyyy-MM-dd'') ''7 pm'' = None" by code_simp
  moreover have "runTokens (formatTokens ''EEEE, MMMM d h:mm a'') ''7 pm'' = None" by code_simp
  moreover have "runTokens (formatTokens ''EEEE MMMM d h:mm a'') ''7 pm'' = None" by code_simp
  moreover have "runTokens (formatTokens ''MMMM d h:mm a'') ''7 pm'' = None" by code_simp
  moreover have "runTokens (formatTokens ''MMM d h:mm a'') ''7 pm'' = None" by code_simp
  moreover have "runTokens (formatTokens ''EEEE, MMMM d'') ''7 pm'' = None" by code_simp
  moreover have "runTokens (formatTokens ''MMMM d'') ''7 pm'' = None" by code_simp
  moreover have "runTokens (formatTokens ''MMM d'') ''7 pm'' = None" by code_simp
  moreover have "runTokens (formatTokens ''h:mm a'') ''7 pm'' = None" by code_simp
  moreover assume "f \<in> set [''EEEE, MMMM d, yyyy h:mm a'', ''MMMM d, yyyy h:mm a'', ''MMM d, yyyy h:mm a'',
       ''MMMM d, yyyy'', ''MMM d, yyyy'', ''yyyy-MM-dd HH:mm'', ''yyyy-MM-dd'',
       ''EEEE, MMMM d h:mm a'', ''EEEE MMMM d h:mm a'', ''MMMM d h:mm a'', ''MMM d h:mm a'',
       ''EEEE, MMMM d'', ''MMMM d'', ''MMM d'', ''h:mm a'']"
  ultimately show ?thesis
    by (auto intro!: dateFnsParse_no_tokens)
qed

lemma doors7_parses:
  "dateFnsParse ''7 pm'' ''h a'' (civil y m d h mi) = Some (civil y m d 19 0)"
proof -
  have "runTokens (formatTokens ''h a'') ''7 pm'' = Some ([Hour1to12Setter 7, AMPMSetter PM], [])"
    by code_simp
  moreover have "uniquePrioritySetters [Hour1to12Setter 7, AMPMSetter PM] =
      [AMPMSetter PM, Hour1to12Setter 7]"
    by code_simp
  moreover have "applySetters [AMPMSetter PM, Hour1to12Setter 7] (civil y m d h mi) =
      Some (civil y m d 19 0)"
    by (simp add: civil_def setHours_def dayPeriodEnumToHours_def)
  ultimately show ?thesis
    by (simp add: dateFnsParse_setters)
qed



section \<open>Properties of the fingerprint\<close>
















section \<open>Properties of the normalisation\<close>

lemma normalizeLoop_titles:
  "map ev_title (normalizeLoop env v raws acc) =
     map ev_title acc @ map title (filter (parsesDate env) raws)"
  by (induction raws arbitrary: acc) (auto simp: parsesDate_def split: option.splits)

lemma normalizeLoop_dates:
  "map (\<lambda>e. Some (ev_date e)) (normalizeLoop env v raws acc) =
     map (\<lambda>e. Some (ev_date e)) acc @
     map (\<lambda>r. parseDate env (dateRaw r)) (filter (parsesDate env) raws)"
  by (induction raws arbitrary: acc) (auto simp: parsesDate_def split: option.splits)

lemma normalizeLoop_doors:
  "map ev_doorsTime (normalizeLoop env v raws acc) =
     map ev_doorsTime acc @ map (\<lambda>r. parseDoors env (doorsRaw r)) (filter (parsesDate env) raws)"
  by (induction raws arbitrary: acc) (auto simp: parsesDate_def split: option.splits)

lemma normalizeLoop_length:
  "length (normalizeLoop env v raws acc) = length acc + length (filter (parsesDate env) raws)"
  by (induction raws arbitrary: acc) (auto simp: parsesDate_def split: option.splits)

lemma normalizeLoop_ids:
  "map ev_id (normalizeLoop env v raws acc) =
     map ev_id acc @
     map (randomUUID env) [length acc..<length acc + length (filter (parsesDate env) raws)]"
proof (induction raws arbitrary: acc)
  case Nil
  show ?case by simp
next
  case (Cons r raws)
  show ?case
  proof (cases "parseDate env (dateRaw r)")
    case None
    then show ?thesis using Cons.IH [of acc] by (simp add: parsesDate_def)
  next
    case (Some d)
    define k where "k = length (filter (parsesDate env) raws)"
    have u: "[length acc..<length acc + Suc k] = length acc # [Suc (length acc)..<Suc (length acc) + k]"
      by (simp add: upt_conv_Cons)
    have p: "parsesDate env r" using Some by (simp add: parsesDate_def)
    show ?thesis
      using Some p Cons.IH u by (simp add: k_def [symmetric])
  qed
qed

lemma normalizeLoop_rest:
  "map (\<lambda>e. (ev_venueId e, ev_url e, ev_price e, ev_isFree e, ev_eventType e)) (normalizeLoop env v raws acc) =
     map (\<lambda>e. (ev_venueId e, ev_url e, ev_price e, ev_isFree e, ev_eventType e)) acc @
     map (\<lambda>r. (v, orNull (url r), price (parsePrice (priceRaw r)), isFree (parsePrice (priceRaw r)),
                classifyEventType (title r)))
       (filter (parsesDate env) raws)"
  by (induction raws arbitrary: acc) (auto simp: parsesDate_def split: option.splits)

lemma normalizeLoopApi_truncate:
  "map NormalizedEvent.truncate (normalizeLoopApi env v raws acc) =
     normalizeLoop env v raws (map NormalizedEvent.truncate acc)"
  by (induction raws arbitrary: acc)
    (auto simp: NormalizedEvent.truncate_def split: option.splits)

lemma tba_fails: "f \<in> set DATE_FORMATS \<Longrightarrow> dateFnsParse ''TBA'' f r = None"
proof -
  have "runTokens (formatTokens ''EEEE, MMMM d, yyyy h:mm a'') ''TBA'' = None" by code_simp
  moreover have "runTokens (formatTokens ''MMMM d, yyyy h:mm a'') ''TBA'' = None" by code_simp
  moreover have "runTokens (formatTokens ''MMM d, yyyy h:mm a'') ''TBA'' = None" by code_simp
  moreover have "runTokens (formatTokens ''MMMM d, yyyy'') ''TBA'' = None" by code_simp
  moreover have "runTokens (formatTokens ''MMM d, yyyy'') ''TBA'' = None" by code_simp
  moreover have "runTokens (formatTokens ''yyyy-MM-dd HH:mm'') ''TBA'' = None" by code_simp
  moreover have "runTokens (formatTokens ''yyyy-MM-dd'') ''TBA'' = None" by code_simp
  moreover have "runTokens (formatTokens ''EEEE, MMMM d h:mm a'') ''TBA'' = None" by code_simp
  moreover have "runTokens (formatTokens ''EEEE MMMM d h:mm a'') ''TBA'' = None" by code_simp
  moreover have "runTokens (formatTokens ''MMMM d h:mm a'') ''TBA'' = None" by code_simp
  moreover have "runTokens (formatTokens ''MMM d h:mm a'') ''TBA'' = None" by code_simp
  moreover have "runTokens (formatTokens ''EEEE, MMMM d'') ''TBA'' = None" by code_simp
  moreover have "runTokens (formatTokens ''MMMM d'') ''TBA'' = None" by code_simp
  moreover have "runTokens (formatTokens ''MMM d'') ''TBA'' = None" by code_simp
  moreover have "runTokens (formatTokens ''h:mm a'') ''TBA'' = None" by code_simp
  moreover have "runTokens (formatTokens ''h a'') ''TBA'' = None" by code_simp
  moreover have "runTokens (formatTokens ''ha'') ''TBA'' = None" by code_simp
  moreover assume "f \<in> set DATE_FORMATS"
  ultimately show ?thesis
    unfolding DATE_FORMATS_def by (auto intro!: dateFnsParse_no_tokens)
qed

lemma tba_example: "parseVancouverDate dateFnsParse vancouverZone ''TBA'' r = None"
proof -
  have "normalizeInput ''TBA'' = ''TBA''" by code_simp
  then show ?thesis
    unfolding parseVancouverDate_none using tba_fails by simp
qed

lemma doors7_example:
  "parseVancouverDate dateFnsParse vancouverZone ''Doors @ 7pm'' (civil 2024 0 1 0 0) =
     Some (civil 2024 0 2 3 0)"
proof -
  let ?before = "[''EEEE, MMMM d, yyyy h:mm a'', ''MMMM d, yyyy h:mm a'', ''MMM d, yyyy h:mm a'',
       ''MMMM d, yyyy'', ''MMM d, yyyy'', ''yyyy-MM-dd HH:mm'', ''yyyy-MM-dd'',
       ''EEEE, MMMM d h:mm a'', ''EEEE MMMM d h:mm a'', ''MMMM d h:mm a'', ''MMM d h:mm a'',
       ''EEEE, MMMM d'', ''MMMM d'', ''MMM d'', ''h:mm a'']"
  have n: "normalizeInput ''Doors @ 7pm'' = ''7 pm''" by code_simp
  have h2: "DATE_FORMATS = ?before @ ''h a'' # [''ha'']"
    by (simp add: DATE_FORMATS_def)
  have h3: "\<forall>f\<in>set ?before. dateFnsParse (normalizeInput ''Doors @ 7pm'') f (civil 2024 0 1 0 0) = None"
    unfolding n using doors7_fails by blast
  have h4: "dateFnsParse (normalizeInput ''Doors @ 7pm'') ''h a'' (civil 2024 0 1 0 0) =
      Some (civil 2024 0 1 19 0)"
    unfolding n by (rule doors7_parses)
  have y: "\<not> includesStr ''h a'' ''yyyy''" by code_simp
  have i: "inferYear (civil 2024 0 1 19 0) (civil 2024 0 1 0 0) = civil 2024 0 1 19 0"
    by (simp add: inferYear_def Let_def setYear_def setFullYear_def civil_def setDate_def
        dayAfter.simps dayBefore.simps daysInMonth_def isBefore_def getTime_def MakeDay_def
        DayFromYear_def monthStart_def isLeapYear_def timeInDay_def MakeTime_def msPerDay_def
        prevMonth_def)
  have z: "fromZonedTime vancouverZone (civil 2024 0 1 19 0) = civil 2024 0 2 3 0"
    by (simp add: fromZonedTime_def vancouverZone_def vancouverDST_def civil_def
        addMilliseconds_def Let_def timeInDay_def MakeTime_def msPerDay_def setDate_def
        dayAfter.simps daysInMonth_def)
  from parseVancouverDate_winner [where P = dateFnsParse and tz = vancouverZone
      and raw = "''Doors @ 7pm''" and ref = "civil 2024 0 1 0 0", OF _ h2 h3 h4] y i z
  show ?thesis by simp
qed

text \<open>
  Claim C6. \<open>normalizeEvents\<close> keeps, in order, exactly the raw events whose primary date
  string parses, and drops the others: the normalised events are as many as the raw
  events that parse, with their titles and their parsed dates. A date string fails to
  parse when it is empty or no format parses its normalised form, and the parser then
  returns null, never a date. The doors time of a kept event is the parse of its doors
  string, null when the string is absent, empty or does not parse; it plays no part in
  whether the event is kept. Normalisation leaves the scrape result of the venue as it
  is, so a venue whose scrape succeeded still reports success. The copy of
  \<open>normalizeEvents\<close> in the API route yields the same events, with two time stamps added.
\<close>

theorem normalizeEvents_drops_unparsed:
  fixes env :: Surroundings and raws :: "RawEvent list"
  defines "kept \<equiv> filter (parsesDate env) raws"
  shows
   "length (normalizeEvents env v raws) = length kept \<and>
    map ev_title (normalizeEvents env v raws) = map title kept \<and>
    map (\<lambda>e. Some (ev_date e)) (normalizeEvents env v raws) =
      map (\<lambda>r. parseDate env (dateRaw r)) kept \<and>
    map ev_doorsTime (normalizeEvents env v raws) = map (\<lambda>r. parseDoors env (doorsRaw r)) kept \<and>
    map ev_id (normalizeEvents env v raws) = map (randomUUID env) [0..<length kept] \<and>
    map NormalizedEvent.truncate (normalizeEventsApi env v raws) = normalizeEvents env v raws \<and>
    (parsesDate env r \<longleftrightarrow>
       dateRaw r \<noteq> [] \<and>
       (\<exists>f\<in>set DATE_FORMATS. dateParser env (normalizeInput (dateRaw r)) f (now env) \<noteq> None)) \<and>
    parseDoors env None = None \<and>
    (parseDate env s = None \<longrightarrow> parseDoors env (Some s) = None) \<and>
    fst (scrapeAndNormalize env sc w vn) = fst (runScraper sc w vn) \<and>
    (status (fst (runScraper sc w vn)) = Success \<longrightarrow>
       snd (scrapeAndNormalize env sc w vn) =
         normalizeEvents env (venue_id vn) (events (fst (runScraper sc w vn))))"
proof -
  have a: "length (normalizeEvents env v raws) = length kept"
    by (simp add: normalizeEvents_def normalizeLoop_length kept_def)
  have b: "map ev_title (normalizeEvents env v raws) = map title kept"
    by (simp add: normalizeEvents_def normalizeLoop_titles kept_def)
  have c: "map (\<lambda>e. Some (ev_date e)) (normalizeEvents env v raws) =
      map (\<lambda>r. parseDate env (dateRaw r)) kept"
    by (simp add: normalizeEvents_def normalizeLoop_dates kept_def)
  have d: "map ev_doorsTime (normalizeEvents env v raws) = map (\<lambda>r. parseDoors env (doorsRaw r)) kept"
    by (simp add: normalizeEvents_def normalizeLoop_doors kept_def)
  have e: "map ev_id (normalizeEvents env v raws) = map (randomUUID env) [0..<length kept]"
    by (simp add: normalizeEvents_def normalizeLoop_ids kept_def)
  have f: "map NormalizedEvent.truncate (normalizeEventsApi env v raws) = normalizeEvents env v raws"
    by (simp add: normalizeEventsApi_def normalizeEvents_def normalizeLoopApi_truncate)
  have g: "parsesDate env r \<longleftrightarrow>
       dateRaw r \<noteq> [] \<and>
       (\<exists>f\<in>set DATE_FORMATS. dateParser env (normalizeInput (dateRaw r)) f (now env) \<noteq> None)"
    unfolding parsesDate_def parseDate_def parseVancouverDate_none by auto
  have h: "parseDoors env None = None" by (simp add: parseDoors_def)
  have i: "parseDate env s = None \<longrightarrow> parseDoors env (Some s) = None"
    by (simp add: parseDoors_def)
  have j: "fst (scrapeAndNormalize env sc w vn) = fst (runScraper sc w vn)"
    by (simp add: scrapeAndNormalize_def Let_def)
  have k: "status (fst (runScraper sc w vn)) = Success \<longrightarrow>
       snd (scrapeAndNormalize env sc w vn) =
         normalizeEvents env (venue_id vn) (events (fst (runScraper sc w vn)))"
    by (simp add: scrapeAndNormalize_def Let_def)
  from a b c d e f g h i j k show ?thesis by blast
qed

theorem normalizeEvents_drops_unparsed_witness:
  "\<forall>md5 uuid.
     map ev_title (normalizeEvents
        \<lparr>dateParser = dateFnsParse, zone = vancouverZone, digest = md5,
         now = civil 2024 0 1 0 0, randomUUID = uuid\<rparr> ''rickshaw-theatre'' exampleBatch) =
       [''Punk Night'', ''Jazz Concert''] \<and>
     map ev_date (normalizeEvents
        \<lparr>dateParser = dateFnsParse, zone = vancouverZone, digest = md5,
         now = civil 2024 0 1 0 0, randomUUID = uuid\<rparr> ''rickshaw-theatre'' exampleBatch) =
       [civil 2024 0 13 3 30, civil 2024 6 13 2 30] \<and>
     map ev_doorsTime (normalizeEvents
        \<lparr>dateParser = dateFnsParse, zone = vancouverZone, digest = md5,
         now = civil 2024 0 1 0 0, randomUUID = uuid\<rparr> ''rickshaw-theatre'' exampleBatch) =
       [Some (civil 2024 0 2 3 0), None]"
proof (intro allI)
  fix md5 :: Digest and uuid :: "nat \<Rightarrow> string"
  let ?env = "\<lparr>dateParser = dateFnsParse, zone = vancouverZone, digest = md5,
         now = civil 2024 0 1 0 0, randomUUID = uuid\<rparr>"
  have p: "parseDate ?env s = parseVancouverDate dateFnsParse vancouverZone s (civil 2024 0 1 0 0)" for s
    by (simp add: parseDate_def del: One_nat_def)
  have k: "filter (parsesDate ?env) exampleBatch =
      [exampleBatch ! 0, exampleBatch ! 2]"
    by (simp add: exampleBatch_def parsesDate_def p friday_example july_example tba_example
        del: One_nat_def)
  have t: "parseDate ?env ''TBA'' = None" by (simp add: p tba_example del: One_nat_def)
  note T = normalizeEvents_drops_unparsed [of ?env "''rickshaw-theatre''" exampleBatch
      "exampleBatch ! 1" "''TBA''"]
  have A: "map ev_title (normalizeEvents ?env ''rickshaw-theatre'' exampleBatch) =
      [''Punk Night'', ''Jazz Concert'']"
    using T k by (simp add: exampleBatch_def del: One_nat_def)
  have "map (\<lambda>e. Some (ev_date e)) (normalizeEvents ?env ''rickshaw-theatre'' exampleBatch) =
      [Some (civil 2024 0 13 3 30), Some (civil 2024 6 13 2 30)]"
    using T k by (simp add: exampleBatch_def p friday_example july_example del: One_nat_def)
  then have B: "map ev_date (normalizeEvents ?env ''rickshaw-theatre'' exampleBatch) =
      [civil 2024 0 13 3 30, civil 2024 6 13 2 30]"
    by (auto simp: map_eq_Cons_conv)
  have "parseDoors ?env (Some ''TBA'') = None" using T t by blast
  then have C: "map ev_doorsTime (normalizeEvents ?env ''rickshaw-theatre'' exampleBatch) =
      [Some (civil 2024 0 2 3 0), None]"
    using T k by (simp add: exampleBatch_def parseDoors_def p doors7_example del: One_nat_def)
  from A B C show "map ev_title (normalizeEvents ?env ''rickshaw-theatre'' exampleBatch) =
       [''Punk Night'', ''Jazz Concert''] \<and>
     map ev_date (normalizeEvents ?env ''rickshaw-theatre'' exampleBatch) =
       [civil 2024 0 13 3 30, civil 2024 6 13 2 30] \<and>
     map ev_doorsTime (normalizeEvents ?env ''rickshaw-theatre'' exampleBatch) =
       [Some (civil 2024 0 2 3 0), None]"
    by blast
qed

end
